theory Spec2Isabelle
  imports
    Complex_Main
    "HOL-Library.Char_ord"
    "HOL-Library.List_Lexorder"
    "HOL-Library.AList"
begin

section \<open>Values, library functions and errors\<close>

text \<open>
  The program is \<^verbatim>\<open>build_static.py\<close>. All its data comes out of
  \<^verbatim>\<open>json.load\<close>, so a value is a JSON value. A Python dict is an association
  list read with \<open>map_of\<close>. Numbers are rationals: Python's \<^verbatim>\<open>int\<close> and
  \<^verbatim>\<open>float\<close> are not told apart, and float arithmetic is exact arithmetic
  here (binary64 rounding error is outside this model).
\<close>

datatype json =
    JNull
  | JBool bool
  | JNum rat
  | JStr string
  | JArr "json list"
  | JObj "(string \<times> json) list"

text \<open>
  The exceptions that no handler of the program catches. \<^verbatim>\<open>ValueError\<close>,
  \<^verbatim>\<open>json.JSONDecodeError\<close> and \<^verbatim>\<open>IOError\<close> are always caught where they
  can arise, so they appear as \<open>None\<close> and not as an error value.
\<close>

datatype error =
    AttributeError
  | TypeError
  | FileExistsError
  | IsADirectoryError
  | NotADirectoryError

text \<open>
  \<^verbatim>\<open>datetime.fromisoformat\<close> returns a naive or an aware \<^verbatim>\<open>datetime\<close>; the
  payload is the position on its time line in microseconds. The two library functions
  the program calls are parameters of the model: \<open>fromisoformat\<close> is \<open>None\<close> where
  Python raises \<^verbatim>\<open>ValueError\<close>.
\<close>

datatype datetime = Naive int | Aware int

record pylib =
  fromisoformat :: "string \<Rightarrow> datetime option"
  ctime :: "rat \<Rightarrow> string"

text \<open>\<^verbatim>\<open>a - b\<close> on datetimes: mixing naive and aware raises \<^verbatim>\<open>TypeError\<close> (\<open>None\<close>).\<close>

fun dt_sub :: "datetime \<Rightarrow> datetime \<Rightarrow> int option" where
  "dt_sub (Naive a) (Naive b) = Some (a - b)"
| "dt_sub (Aware a) (Aware b) = Some (a - b)"
| "dt_sub _ _ = None"

text \<open>\<^verbatim>\<open>timedelta.total_seconds()\<close> of a difference of that many microseconds.\<close>

definition total_seconds :: "int \<Rightarrow> rat" where
  "total_seconds us = of_int us / 1000000"

text \<open>\<^verbatim>\<open>x.get(key, default)\<close> on a dict, and on any value: only a dict has the method.\<close>

definition dict_get :: "(string \<times> json) list \<Rightarrow> string \<Rightarrow> json \<Rightarrow> json" where
  "dict_get kv k d = (case map_of kv k of None \<Rightarrow> d | Some v \<Rightarrow> v)"

fun py_get :: "json \<Rightarrow> string \<Rightarrow> json \<Rightarrow> error + json" where
  "py_get (JObj kv) k d = Inr (dict_get kv k d)"
| "py_get _ k d = Inl AttributeError"

text \<open>Truth value testing, as \<^verbatim>\<open>if x\<close> and \<^verbatim>\<open>x and y\<close> do it.\<close>

fun truthy :: "json \<Rightarrow> bool" where
  "truthy JNull = False"
| "truthy (JBool b) = b"
| "truthy (JNum r) = (r \<noteq> 0)"
| "truthy (JStr s) = (s \<noteq> [])"
| "truthy (JArr xs) = (xs \<noteq> [])"
| "truthy (JObj kv) = (kv \<noteq> [])"

text \<open>\<^verbatim>\<open>s.replace("Z", "+00:00")\<close>: every occurrence is replaced.\<close>

definition replace_Z :: "string \<Rightarrow> string" where
  "replace_Z s = concat (map (\<lambda>c. if c = CHR ''Z'' then ''+00:00'' else [c]) s)"

text \<open>
  \<^verbatim>\<open>datetime.fromisoformat(ts.replace("Z", "+00:00"))\<close>. A value that is not a
  string has no \<^verbatim>\<open>replace\<close>: \<^verbatim>\<open>AttributeError\<close>, which the handlers for
  \<^verbatim>\<open>(ValueError, TypeError)\<close> let through. \<open>Inr None\<close> is the \<^verbatim>\<open>ValueError\<close>.
\<close>

fun parse_ts :: "pylib \<Rightarrow> json \<Rightarrow> error + datetime option" where
  "parse_ts L (JStr s) = Inr (fromisoformat L (replace_Z s))"
| "parse_ts L _ = Inl AttributeError"

text \<open>
  \<^verbatim>\<open>round(x, 1)\<close>: the nearest multiple of one tenth, a tie going to the even
  multiple.
\<close>

definition round_half_even :: "rat \<Rightarrow> int" where
  "round_half_even y =
     (let f = \<lfloor>y\<rfloor>; d = y - of_int f
      in if d < 1 / 2 then f else if 1 / 2 < d then f + 1 else if even f then f else f + 1)"

definition py_round1 :: "rat \<Rightarrow> rat" where
  "py_round1 x = of_int (round_half_even (x * 10)) / 10"

section \<open>Total conversation time\<close>

text \<open>
  One iteration of the loop of \<^verbatim>\<open>compute_total_conversation_time\<close>, lines 31 to
  51: the new value of \<^verbatim>\<open>total_time\<close>. The previous timestamp is parsed first; the
  current one is not looked at when that fails.
\<close>

definition total_step :: "pylib \<Rightarrow> json \<Rightarrow> json \<Rightarrow> rat \<Rightarrow> error + rat" where
  "total_step L prev_event curr_event total_time =
     (case py_get prev_event ''source'' JNull of
        Inl e \<Rightarrow> Inl e
      | Inr src \<Rightarrow>
          if src \<noteq> JStr ''user'' then
            (case py_get prev_event ''timestamp'' JNull of
               Inl e \<Rightarrow> Inl e
             | Inr prev_timestamp \<Rightarrow>
                 (case py_get curr_event ''timestamp'' JNull of
                    Inl e \<Rightarrow> Inl e
                  | Inr curr_timestamp \<Rightarrow>
                      if truthy prev_timestamp \<and> truthy curr_timestamp then
                        (case parse_ts L prev_timestamp of
                           Inl e \<Rightarrow> Inl e
                         | Inr None \<Rightarrow> Inr total_time
                         | Inr (Some prev_dt) \<Rightarrow>
                             (case parse_ts L curr_timestamp of
                                Inl e \<Rightarrow> Inl e
                              | Inr None \<Rightarrow> Inr total_time
                              | Inr (Some curr_dt) \<Rightarrow>
                                  (case dt_sub curr_dt prev_dt of
                                     None \<Rightarrow> Inr total_time
                                   | Some us \<Rightarrow>
                                       let duration = total_seconds us
                                       in if 0 < duration then Inr (total_time + duration)
                                          else Inr total_time)))
                      else Inr total_time))
          else Inr total_time)"

text \<open>The loop \<^verbatim>\<open>for i in range(1, len(events))\<close>, carrying \<open>events[i - 1]\<close>.\<close>

fun total_loop :: "pylib \<Rightarrow> json \<Rightarrow> json list \<Rightarrow> rat \<Rightarrow> error + rat" where
  "total_loop L prev_event [] total_time = Inr total_time"
| "total_loop L prev_event (curr_event # rest) total_time =
     (case total_step L prev_event curr_event total_time of
        Inl e \<Rightarrow> Inl e
      | Inr t \<Rightarrow> total_loop L curr_event rest t)"

definition compute_total_conversation_time :: "pylib \<Rightarrow> json list \<Rightarrow> error + rat" where
  "compute_total_conversation_time L events =
     (if length events < 2 then Inr 0
      else (case total_loop L (hd events) (tl events) 0 of
              Inl e \<Rightarrow> Inl e
            | Inr total_time \<Rightarrow> Inr (py_round1 total_time)))"

section \<open>Agent turn times\<close>

text \<open>
  One iteration of the loop of lines 124 to 144 of \<^verbatim>\<open>compute_trajectory_metadata\<close>
  on the state \<open>(last_trigger_timestamp, agent_turn_times)\<close>. Here the current
  timestamp is parsed first.
\<close>

definition turn_step :: "pylib \<Rightarrow> json \<Rightarrow> json \<times> rat list \<Rightarrow> error + json \<times> rat list" where
  "turn_step L event st =
     (case st of (last_trigger_timestamp, agent_turn_times) \<Rightarrow>
        (case py_get event ''source'' JNull of
           Inl e \<Rightarrow> Inl e
         | Inr event_source \<Rightarrow>
             (case py_get event ''timestamp'' JNull of
                Inl e \<Rightarrow> Inl e
              | Inr event_timestamp \<Rightarrow>
                  if \<not> truthy event_timestamp then Inr st
                  else if event_source = JStr ''agent'' \<and> truthy last_trigger_timestamp then
                    (case parse_ts L event_timestamp of
                       Inl e \<Rightarrow> Inl e
                     | Inr None \<Rightarrow> Inr (event_timestamp, agent_turn_times)
                     | Inr (Some current_dt) \<Rightarrow>
                         (case parse_ts L last_trigger_timestamp of
                            Inl e \<Rightarrow> Inl e
                          | Inr None \<Rightarrow> Inr (event_timestamp, agent_turn_times)
                          | Inr (Some prev_dt) \<Rightarrow>
                              (case dt_sub current_dt prev_dt of
                                 None \<Rightarrow> Inr (event_timestamp, agent_turn_times)
                               | Some us \<Rightarrow>
                                   let duration = total_seconds us
                                   in if 0 < duration
                                      then Inr (event_timestamp, agent_turn_times @ [duration])
                                      else Inr (event_timestamp, agent_turn_times))))
                  else Inr (event_timestamp, agent_turn_times))))"

fun turn_loop :: "pylib \<Rightarrow> json list \<Rightarrow> json \<times> rat list \<Rightarrow> error + json \<times> rat list" where
  "turn_loop L [] st = Inr st"
| "turn_loop L (event # rest) st =
     (case turn_step L event st of
        Inl e \<Rightarrow> Inl e
      | Inr st' \<Rightarrow> turn_loop L rest st')"

text \<open>The samples of a whole walk, from \<^verbatim>\<open>last_trigger_timestamp = None\<close>.\<close>

definition agent_turn_times :: "pylib \<Rightarrow> json list \<Rightarrow> error + rat list" where
  "agent_turn_times L events =
     (case turn_loop L events (JNull, []) of
        Inl e \<Rightarrow> Inl e
      | Inr st \<Rightarrow> Inr (snd st))"

text \<open>Lines 146 to 149; \<^verbatim>\<open>avg_agent_turn_time\<close> starts at 0.\<close>

definition avg_agent_turn_time :: "rat list \<Rightarrow> rat" where
  "avg_agent_turn_time samples =
     (if samples \<noteq> [] then py_round1 (sum_list samples / of_nat (length samples)) else 0)"

section \<open>The file system\<close>

text \<open>
  A file carries its \<^verbatim>\<open>st_mtime\<close> and what \<^verbatim>\<open>json.load\<close> makes of it: a
  value, or \<open>None\<close> for \<^verbatim>\<open>JSONDecodeError\<close>. A directory carries its
  \<^verbatim>\<open>st_mtime\<close> and its listing, in the order \<^verbatim>\<open>iterdir\<close> yields it. Files are
  readable text in the encoding they are opened with (a file that does not decode is
  outside this model), and there are no symbolic links. The source tree and the output
  tree are two separate trees.
\<close>

datatype node =
    File rat "json option"
  | Dir rat "(string \<times> node) list"

fun st_mtime :: "node \<Rightarrow> rat" where
  "st_mtime (File m c) = m"
| "st_mtime (Dir m es) = m"

fun is_dir :: "node \<Rightarrow> bool" where
  "is_dir (File m c) = False"
| "is_dir (Dir m es) = True"

text \<open>\<^verbatim>\<open>path / name\<close>, when it exists.\<close>

fun child :: "node \<Rightarrow> string \<Rightarrow> node option" where
  "child (Dir m es) name = map_of es name"
| "child (File m c) name = None"

text \<open>
  \<^verbatim>\<open>open\<close> and \<^verbatim>\<open>json.load\<close> inside a handler for
  \<^verbatim>\<open>(json.JSONDecodeError, IOError)\<close>: opening a directory is an \<^verbatim>\<open>IOError\<close>.
\<close>

fun load_json :: "node \<Rightarrow> json option" where
  "load_json (File m c) = c"
| "load_json (Dir m es) = None"

text \<open>The pattern \<^verbatim>\<open>event-*.json\<close>.\<close>

definition is_event_name :: "string \<Rightarrow> bool" where
  "is_event_name name \<longleftrightarrow>
     11 \<le> length name \<and> take 6 name = ''event-'' \<and> drop (length name - 5) name = ''.json''"

fun glob_events :: "node \<Rightarrow> (string \<times> node) list" where
  "glob_events (Dir m es) = filter (\<lambda>p. is_event_name (fst p)) es"
| "glob_events (File m c) = []"

text \<open>\<^verbatim>\<open>sorted(events_dir.glob("event-*.json"))\<close>: paths of one directory, by name.\<close>

definition sorted_event_files :: "node \<Rightarrow> (string \<times> node) list" where
  "sorted_event_files events_dir = sort_key fst (glob_events events_dir)"

section \<open>Trajectory metadata\<close>

text \<open>The loop of lines 106 to 112: a file that does not load is passed over.\<close>

fun load_events :: "(string \<times> node) list \<Rightarrow> json list \<Rightarrow> json list" where
  "load_events [] events = events"
| "load_events (event_file # rest) events =
     (case load_json (snd event_file) of
        None \<Rightarrow> load_events rest events
      | Some event \<Rightarrow> load_events rest (events @ [event]))"

text \<open>
  \<^verbatim>\<open>events.sort(key=lambda e: e.get("timestamp", ""))\<close>. The keys are computed
  first, for every event. With fewer than two events nothing is compared. Strings
  order among themselves, numbers (and booleans) among themselves; the sort is stable.
  Keys of any other kind, or of both kinds, make \<^verbatim>\<open>list.sort\<close> raise
  \<^verbatim>\<open>TypeError\<close>. (Keys that are all arrays can order in Python; the model does not
  follow Python there and raises too. No timestamp of the data model is an array.)
\<close>

fun timestamp_keys :: "json list \<Rightarrow> error + json list" where
  "timestamp_keys [] = Inr []"
| "timestamp_keys (e # es) =
     (case py_get e ''timestamp'' (JStr []) of
        Inl x \<Rightarrow> Inl x
      | Inr k \<Rightarrow> (case timestamp_keys es of Inl x \<Rightarrow> Inl x | Inr ks \<Rightarrow> Inr (k # ks)))"

fun is_str :: "json \<Rightarrow> bool" where
  "is_str (JStr s) = True"
| "is_str _ = False"

fun str_of :: "json \<Rightarrow> string" where
  "str_of (JStr s) = s"
| "str_of _ = []"

fun num_of :: "json \<Rightarrow> rat option" where
  "num_of (JNum r) = Some r"
| "num_of (JBool b) = Some (if b then 1 else 0)"
| "num_of _ = None"

definition sort_events :: "json list \<Rightarrow> error + json list" where
  "sort_events events =
     (case timestamp_keys events of
        Inl e \<Rightarrow> Inl e
      | Inr keys \<Rightarrow>
          if length events < 2 then Inr events
          else if list_all is_str keys
            then Inr (map snd (sort_key fst (zip (map str_of keys) events)))
          else if list_all (\<lambda>k. num_of k \<noteq> None) keys
            then Inr (map snd (sort_key fst (zip (map (\<lambda>k. the (num_of k)) keys) events)))
          else Inl TypeError)"

text \<open>The local variables that lines 63 to 68 and 74 to 97 set.\<close>

record base_info =
  title :: json
  model :: json
  prompt_tokens :: json
  completion_tokens :: json
  reasoning_tokens :: json
  cache_read_tokens :: json

definition default_info :: "string \<Rightarrow> base_info" where
  "default_info trajectory_id =
     \<lparr>title = JStr trajectory_id, model = JNull, prompt_tokens = JNum 0,
      completion_tokens = JNum 0, reasoning_tokens = JNum 0, cache_read_tokens = JNum 0\<rparr>"

fun contains_str :: "string \<Rightarrow> string \<Rightarrow> bool" where
  "contains_str k [] = (k = [])"
| "contains_str k (c # cs) = (take (length k) (c # cs) = k \<or> contains_str k cs)"

text \<open>\<^verbatim>\<open>key in x\<close>: a key of a dict, an element of a list, a substring of a string.\<close>

fun py_contains :: "json \<Rightarrow> string \<Rightarrow> error + bool" where
  "py_contains (JObj kv) k = Inr (map_of kv k \<noteq> None)"
| "py_contains (JArr xs) k = Inr (JStr k \<in> set xs)"
| "py_contains (JStr s) k = Inr (contains_str k s)"
| "py_contains _ k = Inl TypeError"

text \<open>Lines 80 to 86, run when \<^verbatim>\<open>"agent" in base_state\<close>: title and model.\<close>

definition agent_title_model :: "string \<Rightarrow> json \<Rightarrow> error + json \<times> json" where
  "agent_title_model trajectory_id base_state =
     (case py_get base_state ''agent'' (JObj []) of
        Inl e \<Rightarrow> Inl e
      | Inr (JObj agent) \<Rightarrow>
          (case dict_get agent ''llm'' (JObj []) of
             JObj llm \<Rightarrow>
               Inr (dict_get agent ''id'' (JStr trajectory_id), dict_get llm ''model'' JNull)
           | _ \<Rightarrow> Inr (dict_get agent ''id'' (JStr trajectory_id), JNull))
      | Inr _ \<Rightarrow> Inr (JStr trajectory_id, JNull))"

text \<open>Lines 88 to 95: the four counters, down the chain of \<^verbatim>\<open>get\<close> calls.\<close>

definition token_usage_of :: "json \<Rightarrow> error + json \<times> json \<times> json \<times> json" where
  "token_usage_of base_state =
     (case py_get base_state ''stats'' (JObj []) of
        Inl e \<Rightarrow> Inl e
      | Inr stats \<Rightarrow>
     (case py_get stats ''usage_to_metrics'' (JObj []) of
        Inl e \<Rightarrow> Inl e
      | Inr usage \<Rightarrow>
     (case py_get usage ''agent'' (JObj []) of
        Inl e \<Rightarrow> Inl e
      | Inr agent_usage \<Rightarrow>
     (case py_get agent_usage ''accumulated_token_usage'' (JObj []) of
        Inl e \<Rightarrow> Inl e
      | Inr token_usage \<Rightarrow>
     (case py_get token_usage ''prompt_tokens'' (JNum 0) of
        Inl e \<Rightarrow> Inl e
      | Inr p \<Rightarrow>
     (case py_get token_usage ''completion_tokens'' (JNum 0) of
        Inl e \<Rightarrow> Inl e
      | Inr c \<Rightarrow>
     (case py_get token_usage ''reasoning_tokens'' (JNum 0) of
        Inl e \<Rightarrow> Inl e
      | Inr r \<Rightarrow>
     (case py_get token_usage ''cache_read_tokens'' (JNum 0) of
        Inl e \<Rightarrow> Inl e
      | Inr cr \<Rightarrow> Inr (p, c, r, cr)))))))))"

text \<open>
  Lines 74 to 97. No handler catches what the body raises after \<^verbatim>\<open>json.load\<close>
  has returned.
\<close>

definition read_base_state :: "string \<Rightarrow> node \<Rightarrow> error + base_info" where
  "read_base_state trajectory_id trajectory_path =
     (case child trajectory_path ''base_state.json'' of
        None \<Rightarrow> Inr (default_info trajectory_id)
      | Some base_state_path \<Rightarrow>
          (case load_json base_state_path of
             None \<Rightarrow> Inr (default_info trajectory_id)
           | Some base_state \<Rightarrow>
               (case py_contains base_state ''agent'' of
                  Inl e \<Rightarrow> Inl e
                | Inr has_agent \<Rightarrow>
                    (case (if has_agent then agent_title_model trajectory_id base_state
                           else Inr (JStr trajectory_id, JNull)) of
                       Inl e \<Rightarrow> Inl e
                     | Inr tm \<Rightarrow>
                         (case token_usage_of base_state of
                            Inl e \<Rightarrow> Inl e
                          | Inr (p, c, r, cr) \<Rightarrow>
                              Inr \<lparr>title = fst tm, model = snd tm, prompt_tokens = p,
                                   completion_tokens = c, reasoning_tokens = r,
                                   cache_read_tokens = cr\<rparr>)))))"

text \<open>
  Lines 100 to 149: \<open>(event_count, avg_agent_turn_time, total_conversation_time)\<close>.
  The count is that of the listing; the list that is sorted and measured holds the
  events that loaded.
\<close>

definition event_metrics :: "pylib \<Rightarrow> node \<Rightarrow> error + nat \<times> rat \<times> rat" where
  "event_metrics L trajectory_path =
     (case child trajectory_path ''events'' of
        None \<Rightarrow> Inr (0, 0, 0)
      | Some events_dir \<Rightarrow>
          (let event_files = sorted_event_files events_dir;
               event_count = length event_files
           in (case sort_events (load_events event_files []) of
                 Inl e \<Rightarrow> Inl e
               | Inr events \<Rightarrow>
                   (case compute_total_conversation_time L events of
                      Inl e \<Rightarrow> Inl e
                    | Inr total_conversation_time \<Rightarrow>
                        (case agent_turn_times L events of
                           Inl e \<Rightarrow> Inl e
                         | Inr samples \<Rightarrow>
                             Inr (event_count, avg_agent_turn_time samples,
                                  total_conversation_time))))))"

text \<open>
  Lines 151 to 154: \<open>(total_tokens, cache_pct)\<close>. \<^verbatim>\<open>+\<close> adds numbers and
  concatenates strings or lists; \<^verbatim>\<open>> 0\<close> and \<^verbatim>\<open>/\<close> want numbers.
\<close>

fun py_add :: "json \<Rightarrow> json \<Rightarrow> error + json" where
  "py_add (JStr a) (JStr b) = Inr (JStr (a @ b))"
| "py_add (JArr a) (JArr b) = Inr (JArr (a @ b))"
| "py_add a b =
     (case (num_of a, num_of b) of
        (Some x, Some y) \<Rightarrow> Inr (JNum (x + y))
      | _ \<Rightarrow> Inl TypeError)"

definition token_totals :: "json \<Rightarrow> json \<Rightarrow> json \<Rightarrow> error + json \<times> json" where
  "token_totals prompt completion cache_read =
     (case py_add prompt completion of
        Inl e \<Rightarrow> Inl e
      | Inr total_tokens \<Rightarrow>
          (case num_of prompt of
             None \<Rightarrow> Inl TypeError
           | Some p \<Rightarrow>
               if 0 < p then
                 (case num_of cache_read of
                    None \<Rightarrow> Inl TypeError
                  | Some c \<Rightarrow>
                      Inr (total_tokens, JNum (of_int (round_half_even (c / p * 100)))))
               else Inr (total_tokens, JNum 0)))"

definition compute_trajectory_metadata :: "pylib \<Rightarrow> string \<Rightarrow> node \<Rightarrow> error + json" where
  "compute_trajectory_metadata L trajectory_id trajectory_path =
     (case read_base_state trajectory_id trajectory_path of
        Inl e \<Rightarrow> Inl e
      | Inr info \<Rightarrow>
          (case event_metrics L trajectory_path of
             Inl e \<Rightarrow> Inl e
           | Inr (event_count, avg_turn, total_time) \<Rightarrow>
               (case token_totals (prompt_tokens info) (completion_tokens info)
                       (cache_read_tokens info) of
                  Inl e \<Rightarrow> Inl e
                | Inr (total_tokens, cache_pct) \<Rightarrow>
                    Inr (JObj
                      [(''id'', JStr trajectory_id),
                       (''title'', title info),
                       (''model'', model info),
                       (''created'', JStr (ctime L (st_mtime trajectory_path))),
                       (''eventCount'', JNum (of_nat event_count)),
                       (''promptTokens'', prompt_tokens info),
                       (''completionTokens'', completion_tokens info),
                       (''reasoningTokens'', reasoning_tokens info),
                       (''cacheReadTokens'', cache_read_tokens info),
                       (''cachePct'', cache_pct),
                       (''totalTokens'', total_tokens),
                       (''avgAgentTurnTime'', JNum avg_turn),
                       (''totalConversationTime'', JNum total_time)]))))"

section \<open>Trajectory detail and events\<close>

text \<open>
  \<^verbatim>\<open>build_trajectory_detail\<close>. The dict keeps insertion order; assigning
  \<^verbatim>\<open>eventCount\<close> again replaces the value in place.
\<close>

definition detail_base_state :: "node \<Rightarrow> (string \<times> json) list \<Rightarrow> error + (string \<times> json) list" where
  "detail_base_state trajectory_path trajectory =
     (case child trajectory_path ''base_state.json'' of
        None \<Rightarrow> Inr trajectory
      | Some base_state_path \<Rightarrow>
          (case load_json base_state_path of
             None \<Rightarrow> Inr trajectory
           | Some base_state \<Rightarrow>
               (let trajectory1 = AList.update ''baseState'' base_state trajectory
                in (case py_get base_state ''agent'' (JObj []) of
                      Inl e \<Rightarrow> Inl e
                    | Inr (JObj agent) \<Rightarrow>
                        (case dict_get agent ''llm'' (JObj []) of
                           JObj llm \<Rightarrow>
                             Inr (AList.update ''model'' (dict_get llm ''model'' JNull) trajectory1)
                         | _ \<Rightarrow> Inr trajectory1)
                    | Inr _ \<Rightarrow> Inr trajectory1))))"

definition build_trajectory_detail :: "pylib \<Rightarrow> string \<Rightarrow> node \<Rightarrow> error + json" where
  "build_trajectory_detail L trajectory_id trajectory_path =
     (case detail_base_state trajectory_path
             [(''id'', JStr trajectory_id),
              (''created'', JStr (ctime L (st_mtime trajectory_path))),
              (''eventCount'', JNum 0)] of
        Inl e \<Rightarrow> Inl e
      | Inr trajectory \<Rightarrow>
          (case child trajectory_path ''events'' of
             None \<Rightarrow> Inr (JObj trajectory)
           | Some events_dir \<Rightarrow>
               Inr (JObj (AList.update ''eventCount''
                            (JNum (of_nat (length (glob_events events_dir)))) trajectory))))"

text \<open>
  The loop of \<^verbatim>\<open>build_events\<close>, on \<open>(events, warnings)\<close>: the second component
  is the console, one entry (the file's name) for each \<^verbatim>\<open>print\<close> of a warning.
\<close>

fun events_loop :: "(string \<times> node) list \<Rightarrow> json list \<times> string list \<Rightarrow> json list \<times> string list" where
  "events_loop [] st = st"
| "events_loop (event_file # rest) st =
     (case load_json (snd event_file) of
        None \<Rightarrow> events_loop rest (fst st, snd st @ [fst event_file])
      | Some event \<Rightarrow> events_loop rest (fst st @ [event], snd st))"

definition build_events :: "node \<Rightarrow> json list \<times> string list" where
  "build_events trajectory_path =
     (case child trajectory_path ''events'' of
        None \<Rightarrow> ([], [])
      | Some events_dir \<Rightarrow> events_loop (sorted_event_files events_dir) ([], []))"

section \<open>The incremental build\<close>

definition get_source_mtime :: "node \<Rightarrow> rat" where
  "get_source_mtime trajectory_path =
     (let mtime = st_mtime trajectory_path;
          mtime = (case child trajectory_path ''base_state.json'' of
                     None \<Rightarrow> mtime
                   | Some base_state \<Rightarrow> max mtime (st_mtime base_state))
      in (case child trajectory_path ''events'' of
            None \<Rightarrow> mtime
          | Some events_dir \<Rightarrow>
              fold (\<lambda>f m. max m (st_mtime (snd f))) (glob_events events_dir) mtime))"

text \<open>
  The test of lines 294 to 298. \<^verbatim>\<open>str.lower\<close> is modelled on ASCII letters, the
  only characters it sends to a hexadecimal digit.
\<close>

definition lower_char :: "char \<Rightarrow> char" where
  "lower_char c =
     (case map_of (zip ''ABCDEFGHIJKLMNOPQRSTUVWXYZ'' ''abcdefghijklmnopqrstuvwxyz'') c of
        None \<Rightarrow> c
      | Some l \<Rightarrow> l)"

definition is_trajectory_id :: "string \<Rightarrow> bool" where
  "is_trajectory_id name \<longleftrightarrow>
     length name = 32 \<and> list_all (\<lambda>c. c \<in> set ''0123456789abcdef'') (map lower_char name)"

definition is_trajectory :: "string \<times> node \<Rightarrow> bool" where
  "is_trajectory entry \<longleftrightarrow> is_dir (snd entry) \<and> is_trajectory_id (fst entry)"

text \<open>
  \<^verbatim>\<open>sorted(..., key=lambda x: x.stat().st_mtime, reverse=True)\<close>: a stable sort
  that keeps entries of equal time in their order.
\<close>

definition sorted_entries :: "(string \<times> node) list \<Rightarrow> (string \<times> node) list" where
  "sorted_entries es = rev (sort_key (\<lambda>entry. st_mtime (snd entry)) (rev es))"

text \<open>
  The variables of \<^verbatim>\<open>build_static_site\<close>, with the listing of the data directory
  \<^verbatim>\<open>dist/data\<close>, the warnings printed by \<^verbatim>\<open>build_events\<close> and the source
  files opened for reading, in the order of the calls of \<^verbatim>\<open>open\<close>.
\<close>

record build_state =
  trajectories :: "json list"
  source_ids :: "string set"
  rebuilt_count :: nat
  skipped_count :: nat
  removed_count :: nat
  data_dir :: "(string \<times> node) list"
  warnings :: "string list"
  opened :: "string list"

text \<open>\<^verbatim>\<open>data_dir / name / "events.json"\<close>, when it exists.\<close>

definition events_output :: "(string \<times> node) list \<Rightarrow> string \<Rightarrow> node option" where
  "events_output dd name =
     (case map_of dd name of
        None \<Rightarrow> None
      | Some traj_output_dir \<Rightarrow> child traj_output_dir ''events.json'')"

text \<open>Lines 309 to 314: the output is up to date.\<close>

definition up_to_date :: "(string \<times> node) list \<Rightarrow> string \<times> node \<Rightarrow> bool" where
  "up_to_date dd entry \<longleftrightarrow>
     (case events_output dd (fst entry) of
        None \<Rightarrow> False
      | Some out \<Rightarrow> get_source_mtime (snd entry) \<le> st_mtime out)"

text \<open>
  \<^verbatim>\<open>open(path, "w")\<close> with \<^verbatim>\<open>json.dump\<close>, in a directory listing: the file is
  created or replaced and stamped with the time of the write.
\<close>

definition write_file :: "rat \<Rightarrow> string \<Rightarrow> json \<Rightarrow> (string \<times> node) list \<Rightarrow> error + (string \<times> node) list" where
  "write_file now name content es =
     (case map_of es name of
        Some (Dir m sub) \<Rightarrow> Inl IsADirectoryError
      | _ \<Rightarrow> Inr (AList.update name (File now (Some content)) es))"

text \<open>\<^verbatim>\<open>traj_output_dir.mkdir(exist_ok=True)\<close>: the directory's time and listing after it.\<close>

definition mkdir_exist_ok :: "rat \<Rightarrow> node option \<Rightarrow> error + rat \<times> (string \<times> node) list" where
  "mkdir_exist_ok now target =
     (case target of
        None \<Rightarrow> Inr (now, [])
      | Some (Dir m es) \<Rightarrow> Inr (m, es)
      | Some (File m c) \<Rightarrow> Inl FileExistsError)"

text \<open>Lines 317 to 329: the new data directory and the warnings printed.\<close>

definition rebuild :: "pylib \<Rightarrow> rat \<Rightarrow> (string \<times> node) list \<Rightarrow> string \<times> node \<Rightarrow> error + (string \<times> node) list \<times> string list" where
  "rebuild L now dd entry =
     (case mkdir_exist_ok now (map_of dd (fst entry)) of
        Inl e \<Rightarrow> Inl e
      | Inr (m, es) \<Rightarrow>
          (case build_trajectory_detail L (fst entry) (snd entry) of
             Inl e \<Rightarrow> Inl e
           | Inr trajectory_detail \<Rightarrow>
               (case write_file now ''trajectory.json'' trajectory_detail es of
                  Inl e \<Rightarrow> Inl e
                | Inr es1 \<Rightarrow>
                    (let built = build_events (snd entry)
                     in (case write_file now ''events.json'' (JArr (fst built)) es1 of
                           Inl e \<Rightarrow> Inl e
                         | Inr es2 \<Rightarrow>
                             Inr (AList.update (fst entry) (Dir m es2) dd, snd built))))))"

text \<open>
  The files of a trajectory that are opened for reading: \<^verbatim>\<open>base_state.json\<close> when
  it exists, then every event file, by name. \<^verbatim>\<open>compute_trajectory_metadata\<close> opens
  them (lines 76 and 108) when it returns; so do, between them,
  \<^verbatim>\<open>build_trajectory_detail\<close> (line 187) and \<^verbatim>\<open>build_events\<close> (line 216).
\<close>

definition source_files :: "string \<times> node \<Rightarrow> string list" where
  "source_files entry =
     (case child (snd entry) ''base_state.json'' of
        None \<Rightarrow> []
      | Some base_state_path \<Rightarrow> [fst entry @ ''/base_state.json''])
     @ (case child (snd entry) ''events'' of
          None \<Rightarrow> []
        | Some events_dir \<Rightarrow>
            map (\<lambda>f. fst entry @ ''/events/'' @ fst f) (sorted_event_files events_dir))"

text \<open>
  The body of the loop of lines 290 to 329. \<open>clock name\<close> is the time at which the
  files of the output entry \<open>name\<close> are written in this run.
\<close>

definition process_entry :: "pylib \<Rightarrow> (string \<Rightarrow> rat) \<Rightarrow> string \<times> node \<Rightarrow> build_state \<Rightarrow> error + build_state" where
  "process_entry L clock entry st =
     (if is_dir (snd entry) \<and> is_trajectory_id (fst entry) then
        (case compute_trajectory_metadata L (fst entry) (snd entry) of
           Inl e \<Rightarrow> Inl e
         | Inr metadata \<Rightarrow>
             (let st1 = st\<lparr>source_ids := insert (fst entry) (source_ids st),
                           trajectories := trajectories st @ [metadata],
                           opened := opened st @ source_files entry\<rparr>
              in if up_to_date (data_dir st) entry
                 then Inr (st1\<lparr>skipped_count := skipped_count st + 1\<rparr>)
                 else (case rebuild L (clock (fst entry)) (data_dir st) entry of
                         Inl e \<Rightarrow> Inl e
                       | Inr (dd, ws) \<Rightarrow>
                           Inr (st1\<lparr>rebuilt_count := rebuilt_count st + 1,
                                    data_dir := dd,
                                    warnings := warnings st @ ws,
                                    opened := opened st @ source_files entry
                                                @ source_files entry\<rparr>))))
      else Inr st)"

fun process_all :: "pylib \<Rightarrow> (string \<Rightarrow> rat) \<Rightarrow> (string \<times> node) list \<Rightarrow> build_state \<Rightarrow> error + build_state" where
  "process_all L clock [] st = Inr st"
| "process_all L clock (entry # rest) st =
     (case process_entry L clock entry st of
        Inl e \<Rightarrow> Inl e
      | Inr st' \<Rightarrow> process_all L clock rest st')"

text \<open>Lines 333 to 337: what \<^verbatim>\<open>shutil.rmtree\<close> removes.\<close>

definition is_stale_output :: "string set \<Rightarrow> string \<times> node \<Rightarrow> bool" where
  "is_stale_output ids existing_output \<longleftrightarrow>
     is_dir (snd existing_output) \<and> fst existing_output \<notin> ids"

text \<open>
  Lines 331 to 343: the stale output directories are removed and counted, then
  \<^verbatim>\<open>trajectories.json\<close> is written.
\<close>

definition finish_build :: "(string \<Rightarrow> rat) \<Rightarrow> build_state \<Rightarrow> error + build_state" where
  "finish_build clock st =
     (let kept = filter (\<lambda>x. \<not> is_stale_output (source_ids st) x) (data_dir st);
          removed = length (filter (is_stale_output (source_ids st)) (data_dir st))
      in (case write_file (clock ''trajectories.json'') ''trajectories.json''
                (JArr (trajectories st)) kept of
            Inl e \<Rightarrow> Inl e
          | Inr dd' \<Rightarrow> Inr (st\<lparr>removed_count := removed, data_dir := dd'\<rparr>)))"

text \<open>The variables of \<^verbatim>\<open>build_static_site\<close> before its loop (lines 282 to 285).\<close>

definition initial_state :: "(string \<times> node) list \<Rightarrow> build_state" where
  "initial_state dd =
     \<lparr>trajectories = [], source_ids = {}, rebuilt_count = 0, skipped_count = 0,
      removed_count = 0, data_dir = dd, warnings = [], opened = []\<rparr>"

text \<open>
  \<^verbatim>\<open>build_static_site\<close> up to line 343, from the data directory \<open>dd\<close> as lines
  277 to 279 leave it. The source directory is \<open>None\<close> when it does not exist. What
  follows line 343 (the bundler, the patch of the HTML page) is not modelled.
\<close>

definition build_static_site :: "pylib \<Rightarrow> (string \<Rightarrow> rat) \<Rightarrow> node option \<Rightarrow> (string \<times> node) list \<Rightarrow> error + build_state" where
  "build_static_site L clock conversations_dir dd =
     (case (case conversations_dir of
              None \<Rightarrow> Inr (initial_state dd)
            | Some (File m c) \<Rightarrow> Inl NotADirectoryError
            | Some (Dir m es) \<Rightarrow> process_all L clock (sorted_entries es) (initial_state dd)) of
        Inl e \<Rightarrow> Inl e
      | Inr st \<Rightarrow> finish_build clock st)"

section \<open>The specification's wording\<close>


definition timestamp_of :: "json \<Rightarrow> json" where
  "timestamp_of event = (case event of JObj kv \<Rightarrow> dict_get kv ''timestamp'' JNull | _ \<Rightarrow> JNull)"






definition has_timestamp :: "json \<Rightarrow> bool" where
  "has_timestamp event \<longleftrightarrow> truthy (timestamp_of event)"




text \<open>
  A trajectory ID as the specification words it, 32 lowercase hexadecimal characters,
  and the same with the digits \<open>A\<close> to \<open>F\<close> allowed too.
\<close>

definition is_lower_hex_id :: "string \<Rightarrow> bool" where
  "is_lower_hex_id name \<longleftrightarrow>
     length name = 32 \<and> list_all (\<lambda>c. c \<in> set ''0123456789abcdef'') name"

definition is_hex_id :: "string \<Rightarrow> bool" where
  "is_hex_id name \<longleftrightarrow>
     length name = 32 \<and> list_all (\<lambda>c. c \<in> set ''0123456789abcdefABCDEF'') name"

text \<open>
  FRESH: the events output exists and is at least as recent as the trajectory
  directory, the base-state file when there is one, and every event file.
\<close>

definition is_fresh :: "(string \<times> node) list \<Rightarrow> string \<times> node \<Rightarrow> bool" where
  "is_fresh dd entry \<longleftrightarrow>
     (case events_output dd (fst entry) of
        None \<Rightarrow> False
      | Some out \<Rightarrow>
          st_mtime (snd entry) \<le> st_mtime out
          \<and> (case child (snd entry) ''base_state.json'' of
                None \<Rightarrow> True
              | Some base_state \<Rightarrow> st_mtime base_state \<le> st_mtime out)
          \<and> (case child (snd entry) ''events'' of
                None \<Rightarrow> True
              | Some events_dir \<Rightarrow>
                  list_all (\<lambda>f. st_mtime (snd f) \<le> st_mtime out) (glob_events events_dir)))"

text \<open>
  The place of a trajectory's outputs is as the tool leaves it: nothing there yet, or a
  directory in which neither output name is taken by a directory.
\<close>

fun no_dir_at :: "node option \<Rightarrow> bool" where
  "no_dir_at (Some (Dir m es)) = False"
| "no_dir_at _ = True"

definition output_slot_ok :: "(string \<times> node) list \<Rightarrow> string \<Rightarrow> bool" where
  "output_slot_ok dd name \<longleftrightarrow>
     (case map_of dd name of
        None \<Rightarrow> True
      | Some (File m c) \<Rightarrow> False
      | Some (Dir m es) \<Rightarrow>
          no_dir_at (map_of es ''trajectory.json'') \<and> no_dir_at (map_of es ''events.json''))"


text \<open>
  The event files that the listing of a trajectory's events directory shows, and
  those of them that load.
\<close>

definition listed_event_files :: "node \<Rightarrow> (string \<times> node) list" where
  "listed_event_files tp =
     (case child tp ''events'' of None \<Rightarrow> [] | Some events_dir \<Rightarrow> glob_events events_dir)"

definition loads :: "string \<times> node \<Rightarrow> bool" where
  "loads f \<longleftrightarrow> load_json (snd f) \<noteq> None"



section \<open>Values for the closed examples\<close>

text \<open>The event that an event file with these two fields holds.\<close>

definition event :: "string \<Rightarrow> string \<Rightarrow> json" where
  "event src ts = JObj [(''source'', JStr src), (''timestamp'', JStr ts)]"

text \<open>
  A library that parses the timestamps the examples use, as instants counted from
  2024-01-01T00:00:00 UTC, and nothing else.
\<close>

definition sample_lib :: pylib where
  "sample_lib =
     \<lparr>fromisoformat = map_of
        [(''2024-01-01T00:00:00+00:00'', Aware 0),
         (''2024-01-01T00:00:04+00:00'', Aware 4000000),
         (''2024-01-01T00:00:05+00:00'', Aware 5000000),
         (''2024-01-01T00:00:10+00:00'', Aware 10000000)],
      ctime = (\<lambda>m. ''Mon Jan  1 00:00:00 2024'')\<rparr>"

text \<open>
  A trajectory directory: a base state that names the agent and its model, and three
  event files, listed out of name order, the last of which does not parse. By
  timestamp the agent event comes first, by file name the user event does.
\<close>

definition sample_id :: string where
  "sample_id = ''0123456789abcdef0123456789abcdef''"

definition sample_trajectory :: node where
  "sample_trajectory =
     Dir 100
       [(''base_state.json'',
         File 90 (Some (JObj [(''agent'', JObj [(''id'', JStr ''a1''),
                                (''llm'', JObj [(''model'', JStr ''gpt'')])])]))),
        (''events'',
         Dir 95
           [(''event-1.json'', File 80 (Some (event ''agent'' ''2024-01-01T00:00:00Z''))),
            (''event-0.json'', File 81 (Some (event ''user'' ''2024-01-01T00:00:10Z''))),
            (''event-2.json'', File 82 None)])]"

text \<open>Its files, as paths from the source directory.\<close>

definition sample_files :: "string list" where
  "sample_files =
     [''0123456789abcdef0123456789abcdef/base_state.json'',
      ''0123456789abcdef0123456789abcdef/events/event-0.json'',
      ''0123456789abcdef0123456789abcdef/events/event-1.json'',
      ''0123456789abcdef0123456789abcdef/events/event-2.json'']"

text \<open>What \<^verbatim>\<open>compute_trajectory_metadata\<close> returns for it.\<close>

definition sample_metadata :: json where
  "sample_metadata =
     JObj
       [(''id'', JStr sample_id),
        (''title'', JStr ''a1''), (''model'', JStr ''gpt''),
        (''created'', JStr ''Mon Jan  1 00:00:00 2024''),
        (''eventCount'', JNum 3), (''promptTokens'', JNum 0),
        (''completionTokens'', JNum 0), (''reasoningTokens'', JNum 0),
        (''cacheReadTokens'', JNum 0), (''cachePct'', JNum 0),
        (''totalTokens'', JNum 0), (''avgAgentTurnTime'', JNum 0),
        (''totalConversationTime'', JNum 10)]"

text \<open>
  A source directory: the trajectory above, a directory named in upper case, two
  directories and a file that are no trajectories.
\<close>

definition sample_source :: node where
  "sample_source =
     Dir 300
       [(sample_id, sample_trajectory),
        (''0123456789ABCDEF0123456789ABCDEF'', Dir 50 []),
        (''notatrajectory'', Dir 60 []),
        (''0123456789'', Dir 70 []),
        (''fedcba9876543210fedcba9876543210'', File 80 None)]"

text \<open>
  A data directory: an output directory without source trajectory, a stray file, and
  the output directory of the trajectory above, its \<^verbatim>\<open>events.json\<close> as recent
  as the source.
\<close>

definition sample_data_dir :: "(string \<times> node) list" where
  "sample_data_dir =
     [(''deadbeefdeadbeefdeadbeefdeadbeef'', Dir 1 [(''events.json'', File 1 None)]),
      (''notes.txt'', File 2 None),
      (sample_id, Dir 150 [(''events.json'', File 100 (Some (JArr [])))])]"

section \<open>Adjacent pairs of a list\<close>


section \<open>Events of the data model\<close>








section \<open>The total conversation time is the sum over adjacent pairs\<close>







text \<open>
  Outside the data model the function raises: a timestamp that is a number has no
  \<^verbatim>\<open>replace\<close>, and the handler of the \<^verbatim>\<open>try\<close> block does not name
  \<^verbatim>\<open>AttributeError\<close>.
\<close>

lemma total_numeric_timestamp_raises:
  "compute_total_conversation_time L
     [JObj [(''source'', JStr ''agent''), (''timestamp'', JNum 5)], event ''user'' ''x'']
   = Inl AttributeError"
  by (simp add: compute_total_conversation_time_def total_step_def event_def dict_get_def)



section \<open>The walk that collects agent turn times\<close>






lemma turn_step_skip:
  "\<not> has_timestamp (JObj kv) \<Longrightarrow> turn_step L (JObj kv) st = Inr st"
  by (cases st) (simp add: turn_step_def has_timestamp_def timestamp_of_def)

lemma turn_loop_skip:
  "\<not> has_timestamp (JObj kv) \<Longrightarrow>
   turn_loop L (pre @ JObj kv # post) st = turn_loop L (pre @ post) st"
  by (induction pre arbitrary: st) (simp_all add: turn_step_skip split: sum.splits)




text \<open>
  C10. In the walk, an event whose timestamp field is missing or empty is skipped
  entirely: the state of the walk is the same after it, whatever its source, so the
  walk over a list with such an event gives the samples of the list without it, and a
  later agent event is measured from the last event that did carry a timestamp. A user
  event at \<open>t0\<close>, an agent event without timestamp and an agent event ten seconds
  after \<open>t0\<close> give the single sample 10.
\<close>

theorem timestampless_event_skipped:
  "map_of kv ''timestamp'' = None \<or> map_of kv ''timestamp'' = Some (JStr []) \<Longrightarrow>
   turn_step L (JObj kv) st = Inr st
   \<and> turn_loop L (pre @ JObj kv # post) st = turn_loop L (pre @ post) st
   \<and> agent_turn_times L (pre @ JObj kv # post) = agent_turn_times L (pre @ post)"
proof -
  assume "map_of kv ''timestamp'' = None \<or> map_of kv ''timestamp'' = Some (JStr [])"
  then have none: "\<not> has_timestamp (JObj kv)"
    by (auto simp: has_timestamp_def timestamp_of_def dict_get_def)
  then show ?thesis
    by (simp add: turn_step_skip turn_loop_skip agent_turn_times_def)
qed

theorem timestampless_event_skipped_witness:
  "map_of [(''source'', JStr ''agent'')] ''timestamp'' = None
   \<and> agent_turn_times sample_lib
        [event ''user'' ''2024-01-01T00:00:00Z'', JObj [(''source'', JStr ''agent'')],
         event ''agent'' ''2024-01-01T00:00:10Z''] = Inr [10]
   \<and> agent_turn_times sample_lib
        [event ''user'' ''2024-01-01T00:00:00Z'', event ''agent'' ''2024-01-01T00:00:10Z'']
      = Inr [10]"
proof -
  have missing: "map_of [(''source'', JStr ''agent'')] ''timestamp'' = None"
    by simp
  then have hyp: "map_of [(''source'', JStr ''agent'')] ''timestamp'' = None
      \<or> map_of [(''source'', JStr ''agent'')] ''timestamp'' = Some (JStr [])"
    by (rule disjI1)
  have same: "agent_turn_times sample_lib
      ([event ''user'' ''2024-01-01T00:00:00Z''] @ JObj [(''source'', JStr ''agent'')]
        # [event ''agent'' ''2024-01-01T00:00:10Z''])
    = agent_turn_times sample_lib
      ([event ''user'' ''2024-01-01T00:00:00Z''] @ [event ''agent'' ''2024-01-01T00:00:10Z''])"
    using timestampless_event_skipped[OF hyp, of sample_lib "(JNull, [])"
        "[event ''user'' ''2024-01-01T00:00:00Z'']" "[event ''agent'' ''2024-01-01T00:00:10Z'']"]
    by blast
  have ten: "agent_turn_times sample_lib
      [event ''user'' ''2024-01-01T00:00:00Z'', event ''agent'' ''2024-01-01T00:00:10Z'']
    = Inr [10]"
    by (simp add: agent_turn_times_def turn_step_def event_def dict_get_def sample_lib_def
          replace_Z_def total_seconds_def)
  from missing same ten show ?thesis
    by simp
qed

section \<open>Trajectory IDs and the index\<close>

lemma lower_char_hex:
  "lower_char c \<in> set ''0123456789abcdef'' \<longleftrightarrow> c \<in> set ''0123456789abcdefABCDEF''"
  by (auto simp: lower_char_def split: if_splits)

lemma is_trajectory_id_hex: "is_trajectory_id name \<longleftrightarrow> is_hex_id name"
  unfolding is_trajectory_id_def is_hex_id_def list_all_iff
  using lower_char_hex by auto

lemma process_entry_other:
  "\<not> is_trajectory e \<Longrightarrow> process_entry L c e st = Inr st"
  by (auto simp: process_entry_def is_trajectory_def)

lemma process_all_filter:
  "process_all L c (filter is_trajectory es) st = process_all L c es st"
  by (induction es arbitrary: st) (auto simp: process_entry_other split: sum.splits)

lemma sorted_entries_filter:
  "filter P (sorted_entries es) = sorted_entries (filter P es)"
  by (simp add: sorted_entries_def rev_filter[symmetric] filter_sort)

lemma process_entry_index:
  "process_entry L c e st = Inr st' \<Longrightarrow>
   source_ids st' = (if is_trajectory e then insert (fst e) (source_ids st) else source_ids st)
   \<and> map Inr (trajectories st') =
       map Inr (trajectories st) @
         (if is_trajectory e then [compute_trajectory_metadata L (fst e) (snd e)] else [])"
  by (auto simp: process_entry_def is_trajectory_def Let_def split: sum.splits if_splits)

lemma process_all_index:
  "process_all L c es st = Inr st' \<Longrightarrow>
   source_ids st' = source_ids st \<union> fst ` set (filter is_trajectory es)
   \<and> map Inr (trajectories st') =
       map Inr (trajectories st) @
         map (\<lambda>e. compute_trajectory_metadata L (fst e) (snd e)) (filter is_trajectory es)"
proof (induction es arbitrary: st)
  case Nil
  then show ?case by simp
next
  case (Cons e es)
  from Cons.prems obtain st1 where 1: "process_entry L c e st = Inr st1"
    and 2: "process_all L c es st1 = Inr st'"
    by (auto split: sum.splits)
  from process_entry_index[OF 1] Cons.IH[OF 2] show ?case
    by auto
qed

section \<open>Freshness and the rebuild of one trajectory\<close>

lemma fold_max_le:
  "fold (\<lambda>f m. max m (g f)) xs (a::rat) \<le> b \<longleftrightarrow> a \<le> b \<and> list_all (\<lambda>x. g x \<le> b) xs"
  by (induction xs arbitrary: a) auto

lemma get_source_mtime_le:
  "get_source_mtime tp \<le> b \<longleftrightarrow>
     st_mtime tp \<le> b
     \<and> (case child tp ''base_state.json'' of None \<Rightarrow> True | Some bs \<Rightarrow> st_mtime bs \<le> b)
     \<and> (case child tp ''events'' of
           None \<Rightarrow> True
         | Some ed \<Rightarrow> list_all (\<lambda>f. st_mtime (snd f) \<le> b) (glob_events ed))"
  by (auto simp: get_source_mtime_def fold_max_le Let_def split: option.splits)

lemma up_to_date_fresh: "up_to_date dd entry \<longleftrightarrow> is_fresh dd entry"
  by (simp add: up_to_date_def is_fresh_def get_source_mtime_le split: option.splits)

lemma write_file_result:
  "write_file now name content es = Inr es' \<Longrightarrow>
   es' = AList.update name (File now (Some content)) es"
  by (auto simp: write_file_def split: option.splits node.splits)

lemma write_file_ok:
  "no_dir_at (map_of es name) \<Longrightarrow>
   write_file now name content es = Inr (AList.update name (File now (Some content)) es)"
  by (auto simp: write_file_def split: option.splits node.splits)

lemma rebuild_result:
  assumes "rebuild L now dd e = Inr (dd', ws)"
  shows "\<exists>m es' d.
     dd' = AList.update (fst e) (Dir m es') dd
     \<and> build_trajectory_detail L (fst e) (snd e) = Inr d
     \<and> map_of es' ''trajectory.json'' = Some (File now (Some d))
     \<and> map_of es' ''events.json'' = Some (File now (Some (JArr (fst (build_events (snd e))))))
     \<and> ws = snd (build_events (snd e))
     \<and> (\<forall>m c. map_of dd (fst e) \<noteq> Some (File m c))"
proof -
  from assms obtain m es d es1 es2 where
    mk: "mkdir_exist_ok now (map_of dd (fst e)) = Inr (m, es)" and
    d: "build_trajectory_detail L (fst e) (snd e) = Inr d" and
    w1: "write_file now ''trajectory.json'' d es = Inr es1" and
    w2: "write_file now ''events.json'' (JArr (fst (build_events (snd e)))) es1 = Inr es2" and
    res: "dd' = AList.update (fst e) (Dir m es2) dd" "ws = snd (build_events (snd e))"
    by (auto simp: rebuild_def Let_def split: sum.splits prod.splits)
  from mk have nofile: "\<forall>m c. map_of dd (fst e) \<noteq> Some (File m c)"
    by (auto simp: mkdir_exist_ok_def split: option.splits node.splits)
  from write_file_result[OF w1] write_file_result[OF w2]
  have "map_of es2 ''trajectory.json'' = Some (File now (Some d))"
    "map_of es2 ''events.json'' = Some (File now (Some (JArr (fst (build_events (snd e))))))"
    by (simp_all add: AList.update_conv')
  with d res nofile show ?thesis
    by blast
qed

lemma rebuild_ok:
  assumes "output_slot_ok dd (fst e)" and "build_trajectory_detail L (fst e) (snd e) = Inr d"
  shows "\<exists>dd' ws. rebuild L now dd e = Inr (dd', ws)"
proof -
  have "\<exists>m es. mkdir_exist_ok now (map_of dd (fst e)) = Inr (m, es)
      \<and> no_dir_at (map_of es ''trajectory.json'') \<and> no_dir_at (map_of es ''events.json'')"
  proof (cases "map_of dd (fst e)")
    case None
    then show ?thesis by (simp add: mkdir_exist_ok_def)
  next
    case (Some nd)
    with assms(1) show ?thesis
      by (cases nd) (simp_all add: output_slot_ok_def mkdir_exist_ok_def)
  qed
  then obtain m es where
    mk: "mkdir_exist_ok now (map_of dd (fst e)) = Inr (m, es)" and
    t: "no_dir_at (map_of es ''trajectory.json'')" and
    ev: "no_dir_at (map_of es ''events.json'')"
    by blast
  let ?es1 = "AList.update ''trajectory.json'' (File now (Some d)) es"
  from ev have ev1: "no_dir_at (map_of ?es1 ''events.json'')"
    by (simp add: AList.update_conv')
  from mk assms(2) write_file_ok[OF t, of now d] write_file_ok[OF ev1] show ?thesis
    by (simp add: rebuild_def Let_def)
qed

lemma read_base_state_obj:
  "read_base_state n tp = Inr info \<Longrightarrow> child tp ''base_state.json'' = Some f \<Longrightarrow>
   load_json f = Some bs \<Longrightarrow> \<exists>kv. bs = JObj kv"
  by (cases bs) (simp_all add: read_base_state_def token_usage_of_def split: sum.splits)


lemma metadata_detail:
  assumes "compute_trajectory_metadata L n tp = Inr md"
  shows "\<exists>d. build_trajectory_detail L n tp = Inr d"
proof -
  from assms obtain info where info: "read_base_state n tp = Inr info"
    by (auto simp: compute_trajectory_metadata_def split: sum.splits)
  have "\<exists>t'. detail_base_state tp t = Inr t'" for t
  proof (cases "child tp ''base_state.json''")
    case None
    then show ?thesis by (simp add: detail_base_state_def)
  next
    case (Some f)
    show ?thesis
    proof (cases "load_json f")
      case None
      with Some show ?thesis by (simp add: detail_base_state_def)
    next
      case (Some bs)
      with read_base_state_obj[OF info \<open>child tp ''base_state.json'' = Some f\<close>]
      obtain kv where "bs = JObj kv" by blast
      with Some \<open>child tp ''base_state.json'' = Some f\<close> show ?thesis
        by (simp add: detail_base_state_def Let_def split: json.splits)
    qed
  qed
  then obtain t' where "detail_base_state tp
      [(''id'', JStr n), (''created'', JStr (ctime L (st_mtime tp))), (''eventCount'', JNum 0)]
    = Inr t'"
    by blast
  then show ?thesis
    by (simp add: build_trajectory_detail_def split: option.splits)
qed

lemma process_entry_fresh:
  assumes "is_trajectory e" and "compute_trajectory_metadata L (fst e) (snd e) = Inr md"
    and "up_to_date (data_dir st) e"
  shows "process_entry L c e st =
     Inr (st\<lparr>source_ids := insert (fst e) (source_ids st),
             trajectories := trajectories st @ [md],
             opened := opened st @ source_files e,
             skipped_count := skipped_count st + 1\<rparr>)"
  using assms by (simp add: process_entry_def is_trajectory_def Let_def)

lemma process_entry_stale:
  assumes "is_trajectory e" and "compute_trajectory_metadata L (fst e) (snd e) = Inr md"
    and "\<not> up_to_date (data_dir st) e"
    and "rebuild L (c (fst e)) (data_dir st) e = Inr (dd, ws)"
  shows "process_entry L c e st =
     Inr (st\<lparr>source_ids := insert (fst e) (source_ids st),
             trajectories := trajectories st @ [md],
             opened := opened st @ source_files e,
             rebuilt_count := rebuilt_count st + 1,
             data_dir := dd,
             warnings := warnings st @ ws,
             opened := opened st @ source_files e @ source_files e\<rparr>)"
  using assms by (simp add: process_entry_def is_trajectory_def Let_def)

lemma process_entry_cases:
  assumes "process_entry L c e st = Inr st'" and "is_trajectory e"
  obtains (skipped) "up_to_date (data_dir st) e" "data_dir st' = data_dir st"
      "rebuilt_count st' = rebuilt_count st" "skipped_count st' = skipped_count st + 1"
      "warnings st' = warnings st"
  | (rebuilt) ws where "\<not> up_to_date (data_dir st) e"
      "rebuild L (c (fst e)) (data_dir st) e = Inr (data_dir st', ws)"
      "rebuilt_count st' = rebuilt_count st + 1" "skipped_count st' = skipped_count st"
      "warnings st' = warnings st @ ws"
  using assms
  by (auto simp: process_entry_def is_trajectory_def Let_def split: sum.splits if_splits)

lemma up_to_date_cong:
  "map_of dd (fst e) = map_of dd' (fst e) \<Longrightarrow> up_to_date dd e = up_to_date dd' e"
  by (simp add: up_to_date_def events_output_def)


lemma rebuild_other:
  assumes "rebuild L now dd e = Inr (dd', ws)" and "n \<noteq> fst e"
  shows "map_of dd' n = map_of dd n"
  using rebuild_result[OF assms(1)] assms(2) by (auto simp: AList.update_conv')

lemma process_entry_other_name:
  assumes "process_entry L c e st = Inr st'" and "n \<noteq> fst e"
  shows "map_of (data_dir st') n = map_of (data_dir st) n"
proof (cases "is_trajectory e")
  case True
  from assms(1) True show ?thesis
    by (cases rule: process_entry_cases) (simp_all add: rebuild_other[OF _ assms(2)])
next
  case False
  with assms(1) show ?thesis by (simp add: process_entry_other)
qed





section \<open>Skip or rebuild\<close>

lemma sample_is_trajectory: "is_trajectory (sample_id, sample_trajectory)"
  by code_simp

lemma sample_metadata_eval:
  "compute_trajectory_metadata sample_lib sample_id sample_trajectory = Inr sample_metadata"
  by code_simp

text \<open>
  C3. For a trajectory whose metadata computes, the loop body leaves the outputs alone
  (the data directory is unchanged, the skip is counted) if and only if the trajectory
  is FRESH: \<^verbatim>\<open>events.json\<close> exists in its output directory and is at least as
  recent as the trajectory directory, the base-state file when there is one, and every
  event file. Otherwise, the place of its outputs being as the tool leaves it, the
  rebuild is counted and both \<^verbatim>\<open>trajectory.json\<close> and \<^verbatim>\<open>events.json\<close> are
  written anew, with the detail record and the events just built. The source files of
  the trajectory have been opened once when the test is made, for the metadata: the
  skip opens none of them again, the rebuild opens each of them a second time.
\<close>

theorem fresh_trajectory_skipped:
  assumes "is_trajectory e" and "compute_trajectory_metadata L (fst e) (snd e) = Inr md"
  shows
    "(is_fresh (data_dir st) e \<longrightarrow>
        process_entry L c e st =
          Inr (st\<lparr>source_ids := insert (fst e) (source_ids st),
                  trajectories := trajectories st @ [md],
                  opened := opened st @ source_files e,
                  skipped_count := skipped_count st + 1\<rparr>))
     \<and> (\<not> is_fresh (data_dir st) e \<and> output_slot_ok (data_dir st) (fst e) \<longrightarrow>
          (\<exists>st' d m es'.
              process_entry L c e st = Inr st'
              \<and> rebuilt_count st' = rebuilt_count st + 1
              \<and> skipped_count st' = skipped_count st
              \<and> opened st' = opened st @ source_files e @ source_files e
              \<and> build_trajectory_detail L (fst e) (snd e) = Inr d
              \<and> map_of (data_dir st') (fst e) = Some (Dir m es')
              \<and> map_of es' ''trajectory.json'' = Some (File (c (fst e)) (Some d))
              \<and> map_of es' ''events.json''
                  = Some (File (c (fst e)) (Some (JArr (fst (build_events (snd e))))))))
     \<and> ((\<exists>st'. process_entry L c e st = Inr st'
              \<and> skipped_count st' = skipped_count st + 1 \<and> data_dir st' = data_dir st)
          \<longleftrightarrow> is_fresh (data_dir st) e)"
proof (intro conjI impI)
  assume "is_fresh (data_dir st) e"
  with assms show "process_entry L c e st =
      Inr (st\<lparr>source_ids := insert (fst e) (source_ids st),
              trajectories := trajectories st @ [md],
              opened := opened st @ source_files e,
              skipped_count := skipped_count st + 1\<rparr>)"
    by (simp add: process_entry_fresh up_to_date_fresh)
next
  assume h: "\<not> is_fresh (data_dir st) e \<and> output_slot_ok (data_dir st) (fst e)"
  from metadata_detail[OF assms(2)] obtain d where
    d: "build_trajectory_detail L (fst e) (snd e) = Inr d"
    by blast
  from rebuild_ok[OF _ d, of "data_dir st" "c (fst e)"] h obtain dd' ws where
    r: "rebuild L (c (fst e)) (data_dir st) e = Inr (dd', ws)"
    by blast
  from rebuild_result[OF r] d obtain m es' where
    dd': "dd' = AList.update (fst e) (Dir m es') (data_dir st)"
    "map_of es' ''trajectory.json'' = Some (File (c (fst e)) (Some d))"
    "map_of es' ''events.json''
       = Some (File (c (fst e)) (Some (JArr (fst (build_events (snd e))))))"
    by auto
  from h have "\<not> up_to_date (data_dir st) e"
    by (simp add: up_to_date_fresh)
  from process_entry_stale[where c = c and st = st, OF assms this r] d dd'
  show "\<exists>st' d m es'.
      process_entry L c e st = Inr st'
      \<and> rebuilt_count st' = rebuilt_count st + 1
      \<and> skipped_count st' = skipped_count st
      \<and> opened st' = opened st @ source_files e @ source_files e
      \<and> build_trajectory_detail L (fst e) (snd e) = Inr d
      \<and> map_of (data_dir st') (fst e) = Some (Dir m es')
      \<and> map_of es' ''trajectory.json'' = Some (File (c (fst e)) (Some d))
      \<and> map_of es' ''events.json''
          = Some (File (c (fst e)) (Some (JArr (fst (build_events (snd e))))))"
    by (simp add: AList.update_conv')
next
  show "(\<exists>st'. process_entry L c e st = Inr st'
              \<and> skipped_count st' = skipped_count st + 1 \<and> data_dir st' = data_dir st)
          \<longleftrightarrow> is_fresh (data_dir st) e"
  proof
    assume "\<exists>st'. process_entry L c e st = Inr st'
              \<and> skipped_count st' = skipped_count st + 1 \<and> data_dir st' = data_dir st"
    then obtain st' where p: "process_entry L c e st = Inr st'"
      and s: "skipped_count st' = skipped_count st + 1"
      by blast
    from p assms(1) have "up_to_date (data_dir st) e"
      by (cases rule: process_entry_cases) (use s in simp_all)
    then show "is_fresh (data_dir st) e"
      by (simp add: up_to_date_fresh)
  next
    assume "is_fresh (data_dir st) e"
    with assms show "\<exists>st'. process_entry L c e st = Inr st'
              \<and> skipped_count st' = skipped_count st + 1 \<and> data_dir st' = data_dir st"
      by (simp add: process_entry_fresh up_to_date_fresh)
  qed
qed

theorem fresh_trajectory_skipped_witness:
  "is_trajectory (sample_id, sample_trajectory)
   \<and> compute_trajectory_metadata sample_lib sample_id sample_trajectory = Inr sample_metadata
   \<and> is_fresh [(sample_id, Dir 150 [(''events.json'', File 100 (Some (JArr [])))])]
         (sample_id, sample_trajectory)
   \<and> process_entry sample_lib (\<lambda>n. 200) (sample_id, sample_trajectory)
         (initial_state [(sample_id, Dir 150 [(''events.json'', File 100 (Some (JArr [])))])])
       = Inr ((initial_state [(sample_id, Dir 150 [(''events.json'', File 100 (Some (JArr [])))])])
               \<lparr>source_ids := {sample_id}, trajectories := [sample_metadata],
                opened := sample_files, skipped_count := 1\<rparr>)
   \<and> \<not> is_fresh [(sample_id, Dir 150 [(''events.json'', File 99 (Some (JArr [])))])]
         (sample_id, sample_trajectory)
   \<and> output_slot_ok [(sample_id, Dir 150 [(''events.json'', File 99 (Some (JArr [])))])]
         sample_id
   \<and> (\<exists>st' m es'.
         process_entry sample_lib (\<lambda>n. 200) (sample_id, sample_trajectory)
           (initial_state [(sample_id, Dir 150 [(''events.json'', File 99 (Some (JArr [])))])])
         = Inr st'
         \<and> rebuilt_count st' = 1 \<and> skipped_count st' = 0
         \<and> opened st' = sample_files @ sample_files
         \<and> map_of (data_dir st') sample_id = Some (Dir m es')
         \<and> map_of es' ''events.json''
             = Some (File 200 (Some (JArr (fst (build_events sample_trajectory))))))"
proof -
  let ?e = "(sample_id, sample_trajectory)"
  let ?fresh = "[(sample_id, Dir 150 [(''events.json'', File 100 (Some (JArr [])))])]"
  let ?stale = "[(sample_id, Dir 150 [(''events.json'', File 99 (Some (JArr [])))])]"
  have traj: "is_trajectory ?e"
    by code_simp
  have md: "compute_trajectory_metadata sample_lib (fst ?e) (snd ?e) = Inr sample_metadata"
    by code_simp
  have fresh: "is_fresh (data_dir (initial_state ?fresh)) ?e"
    by code_simp
  have stale: "\<not> is_fresh (data_dir (initial_state ?stale)) ?e
      \<and> output_slot_ok (data_dir (initial_state ?stale)) (fst ?e)"
    by code_simp
  have files: "source_files ?e = sample_files"
    by code_simp
  have dd: "data_dir (initial_state ?fresh) = ?fresh" "data_dir (initial_state ?stale) = ?stale"
    "source_ids (initial_state ?fresh) = {}" "trajectories (initial_state ?fresh) = []"
    "skipped_count (initial_state ?fresh) = 0" "rebuilt_count (initial_state ?stale) = 0"
    "skipped_count (initial_state ?stale) = 0"
    "opened (initial_state ?fresh) = []" "opened (initial_state ?stale) = []"
    by (simp_all add: initial_state_def)
  from fresh_trajectory_skipped[OF traj md, of "initial_state ?fresh" "\<lambda>n. 200"] fresh
  have skip: "process_entry sample_lib (\<lambda>n. 200) ?e (initial_state ?fresh)
      = Inr ((initial_state ?fresh)\<lparr>source_ids := {sample_id},
               trajectories := [sample_metadata], opened := sample_files,
               skipped_count := 1\<rparr>)"
    by (simp add: dd files)
  from fresh_trajectory_skipped[OF traj md, of "initial_state ?stale" "\<lambda>n. 200"] stale
  have "\<exists>st' d m es'.
      process_entry sample_lib (\<lambda>n. 200) ?e (initial_state ?stale) = Inr st'
      \<and> rebuilt_count st' = rebuilt_count (initial_state ?stale) + 1
      \<and> skipped_count st' = skipped_count (initial_state ?stale)
      \<and> opened st' = opened (initial_state ?stale) @ source_files ?e @ source_files ?e
      \<and> build_trajectory_detail sample_lib (fst ?e) (snd ?e) = Inr d
      \<and> map_of (data_dir st') (fst ?e) = Some (Dir m es')
      \<and> map_of es' ''trajectory.json'' = Some (File 200 (Some d))
      \<and> map_of es' ''events.json''
          = Some (File 200 (Some (JArr (fst (build_events (snd ?e))))))"
    by blast
  then have rebuilt: "\<exists>st' m es'.
      process_entry sample_lib (\<lambda>n. 200) ?e (initial_state ?stale) = Inr st'
      \<and> rebuilt_count st' = 1 \<and> skipped_count st' = 0
      \<and> opened st' = sample_files @ sample_files
      \<and> map_of (data_dir st') sample_id = Some (Dir m es')
      \<and> map_of es' ''events.json''
          = Some (File 200 (Some (JArr (fst (build_events sample_trajectory)))))"
    by (auto simp: dd files)
  from traj md fresh stale skip rebuilt show ?thesis
    by (simp add: dd)
qed

section \<open>The whole build: the source set\<close>

lemma trajectories_json_no_id: "\<not> is_trajectory_id ''trajectories.json''"
  by (simp add: is_trajectory_id_def)

lemma finish_build_ok:
  assumes "\<forall>n\<in>source_ids st. is_trajectory_id n"
  shows "finish_build c st =
     Inr (st\<lparr>removed_count := length (filter (is_stale_output (source_ids st)) (data_dir st)),
             data_dir := AList.update ''trajectories.json''
               (File (c ''trajectories.json'') (Some (JArr (trajectories st))))
               (filter (\<lambda>x. \<not> is_stale_output (source_ids st) x) (data_dir st))\<rparr>)"
proof -
  let ?kept = "filter (\<lambda>x. \<not> is_stale_output (source_ids st) x) (data_dir st)"
  have "no_dir_at (map_of ?kept ''trajectories.json'')"
  proof (cases "map_of ?kept ''trajectories.json''")
    case None
    then show ?thesis by simp
  next
    case (Some nd)
    then have "(''trajectories.json'', nd) \<in> set ?kept"
      by (rule map_of_SomeD)
    then have "is_dir nd \<longrightarrow> ''trajectories.json'' \<in> source_ids st"
      by (simp add: is_stale_output_def)
    with assms trajectories_json_no_id have "\<not> is_dir nd"
      by blast
    with Some show ?thesis
      by (cases nd) simp_all
  qed
  then show ?thesis
    by (simp add: finish_build_def Let_def write_file_ok)
qed

lemma source_ids_initial: "source_ids (initial_state dd) = {}"
  and trajectories_initial: "trajectories (initial_state dd) = []"
  and data_dir_initial: "data_dir (initial_state dd) = dd"
  and counts_initial: "rebuilt_count (initial_state dd) = 0" "skipped_count (initial_state dd) = 0"
  and warnings_initial: "warnings (initial_state dd) = []"
  by (simp_all add: initial_state_def)

lemma process_all_ids_hex:
  assumes "process_all L c es (initial_state dd) = Inr st"
  shows "\<forall>n\<in>source_ids st. is_trajectory_id n"
  using process_all_index[OF assms]
  by (auto simp: source_ids_initial is_trajectory_def)

lemma set_sorted_entries: "set (sorted_entries es) = set es"
  by (simp add: sorted_entries_def)

lemma build_static_site_Dir:
  "build_static_site L c (Some (Dir m es)) dd =
     (case process_all L c (sorted_entries es) (initial_state dd) of
        Inl e \<Rightarrow> Inl e
      | Inr st \<Rightarrow>
          Inr (st\<lparr>removed_count :=
                    length (filter (is_stale_output (source_ids st)) (data_dir st)),
                  data_dir := AList.update ''trajectories.json''
                    (File (c ''trajectories.json'') (Some (JArr (trajectories st))))
                    (filter (\<lambda>x. \<not> is_stale_output (source_ids st) x) (data_dir st))\<rparr>))"
  by (auto simp: build_static_site_def finish_build_ok process_all_ids_hex split: sum.splits)

lemma is_trajectory_hex: "is_trajectory e \<longleftrightarrow> is_dir (snd e) \<and> is_hex_id (fst e)"
  by (simp add: is_trajectory_def is_trajectory_id_hex)

lemma filter_hex_dirs:
  "filter (\<lambda>e. is_dir (snd e) \<and> is_hex_id (fst e)) es = filter is_trajectory es"
  by (rule filter_cong) (simp_all add: is_trajectory_hex)

lemma ids_of_trajectories:
  "fst ` set (filter is_trajectory es) = {n. \<exists>nd. (n, nd) \<in> set es \<and> is_dir nd \<and> is_hex_id n}"
proof (intro set_eqI iffI)
  fix n
  assume "n \<in> fst ` set (filter is_trajectory es)"
  then obtain e where "e \<in> set es" "is_trajectory e" "n = fst e"
    by auto
  then have "(n, snd e) \<in> set es \<and> is_dir (snd e) \<and> is_hex_id n"
    by (simp add: is_trajectory_hex)
  then show "n \<in> {n. \<exists>nd. (n, nd) \<in> set es \<and> is_dir nd \<and> is_hex_id n}"
    by blast
next
  fix n
  assume "n \<in> {n. \<exists>nd. (n, nd) \<in> set es \<and> is_dir nd \<and> is_hex_id n}"
  then obtain nd where "(n, nd) \<in> set es" "is_dir nd" "is_hex_id n"
    by blast
  then have "(n, nd) \<in> set (filter is_trajectory es)"
    by (simp add: is_trajectory_hex)
  then show "n \<in> fst ` set (filter is_trajectory es)"
    by force
qed

text \<open>
  C9, amended. Line 297 lowers the name before it tests the characters, so the case of
  the hexadecimal digits does not matter. On a run that completes, an entry of the
  source directory is in the source set if and only if it is a directory whose name is
  exactly 32 hexadecimal characters, in either case; the index holds the metadata of
  exactly these entries, latest directory first; and every other entry is ignored
  entirely: the run is the run on the source directory without them.
\<close>

theorem trajectory_ids_any_case:
  assumes "build_static_site L c (Some (Dir m es)) dd = Inr st"
  shows "source_ids st = {n. \<exists>nd. (n, nd) \<in> set es \<and> is_dir nd \<and> is_hex_id n}
     \<and> map Inr (trajectories st) =
         map (\<lambda>e. compute_trajectory_metadata L (fst e) (snd e))
           (sorted_entries (filter (\<lambda>e. is_dir (snd e) \<and> is_hex_id (fst e)) es))
     \<and> build_static_site L c
         (Some (Dir m (filter (\<lambda>e. is_dir (snd e) \<and> is_hex_id (fst e)) es))) dd = Inr st"
  unfolding filter_hex_dirs
proof -
  from assms obtain st1 where
    p: "process_all L c (sorted_entries es) (initial_state dd) = Inr st1" and
    ids: "source_ids st = source_ids st1" and
    ts: "trajectories st = trajectories st1"
    by (auto simp: build_static_site_Dir split: sum.splits)
  from process_all_index[OF p] have
    1: "source_ids st1 = fst ` set (filter is_trajectory (sorted_entries es))" and
    2: "map Inr (trajectories st1) =
      map (\<lambda>e. compute_trajectory_metadata L (fst e) (snd e))
        (filter is_trajectory (sorted_entries es))"
    by (simp_all add: source_ids_initial trajectories_initial)
  have "set (filter is_trajectory (sorted_entries es)) = set (filter is_trajectory es)"
    by (simp add: set_sorted_entries)
  with 1 ids have a: "source_ids st = {n. \<exists>nd. (n, nd) \<in> set es \<and> is_dir nd \<and> is_hex_id n}"
    using ids_of_trajectories[of es] by simp
  from 2 ts have b: "map Inr (trajectories st) =
         map (\<lambda>e. compute_trajectory_metadata L (fst e) (snd e))
           (sorted_entries (filter is_trajectory es))"
    by (simp add: sorted_entries_filter)
  have "process_all L c (sorted_entries (filter is_trajectory es)) (initial_state dd)
      = process_all L c (sorted_entries es) (initial_state dd)"
    unfolding sorted_entries_filter[symmetric] by (rule process_all_filter)
  with assms have c: "build_static_site L c (Some (Dir m (filter is_trajectory es))) dd = Inr st"
    by (simp only: build_static_site_Dir)
  from a b c show "source_ids st = {n. \<exists>nd. (n, nd) \<in> set es \<and> is_dir nd \<and> is_hex_id n}
     \<and> map Inr (trajectories st) =
         map (\<lambda>e. compute_trajectory_metadata L (fst e) (snd e))
           (sorted_entries (filter is_trajectory es))
     \<and> build_static_site L c (Some (Dir m (filter is_trajectory es))) dd = Inr st"
    by blast
qed

lemma map_sum_InrD: "map_sum f g x = Inr y \<Longrightarrow> \<exists>z. x = Inr z \<and> y = g z"
  by (cases x) auto

theorem trajectory_ids_any_case_witness:
  "\<exists>st. build_static_site sample_lib (\<lambda>n. 200) (Some sample_source) [] = Inr st
     \<and> source_ids st = {sample_id, ''0123456789ABCDEF0123456789ABCDEF''}
     \<and> map Inr (trajectories st) =
         [compute_trajectory_metadata sample_lib sample_id sample_trajectory,
          compute_trajectory_metadata sample_lib ''0123456789ABCDEF0123456789ABCDEF'' (Dir 50 [])]"
proof -
  let ?es = "[(sample_id, sample_trajectory),
        (''0123456789ABCDEF0123456789ABCDEF'', Dir 50 []),
        (''notatrajectory'', Dir 60 []),
        (''0123456789'', Dir 70 []),
        (''fedcba9876543210fedcba9876543210'', File 80 None)]"
  have "map_sum id source_ids (build_static_site sample_lib (\<lambda>n. 200) (Some (Dir 300 ?es)) [])
      = Inr {sample_id, ''0123456789ABCDEF0123456789ABCDEF''}"
    by code_simp
  then obtain st where
    run: "build_static_site sample_lib (\<lambda>n. 200) (Some (Dir 300 ?es)) [] = Inr st" and
    ids: "source_ids st = {sample_id, ''0123456789ABCDEF0123456789ABCDEF''}"
    by (auto dest: map_sum_InrD)
  have kept: "sorted_entries (filter (\<lambda>e. is_dir (snd e) \<and> is_hex_id (fst e)) ?es)
      = [(sample_id, sample_trajectory), (''0123456789ABCDEF0123456789ABCDEF'', Dir 50 [])]"
    by code_simp
  from trajectory_ids_any_case[OF run] have
    "map Inr (trajectories st) =
       map (\<lambda>e. compute_trajectory_metadata sample_lib (fst e) (snd e))
         (sorted_entries (filter (\<lambda>e. is_dir (snd e) \<and> is_hex_id (fst e)) ?es))"
    by blast
  with kept have "map Inr (trajectories st) =
         [compute_trajectory_metadata sample_lib sample_id sample_trajectory,
          compute_trajectory_metadata sample_lib ''0123456789ABCDEF0123456789ABCDEF'' (Dir 50 [])]"
    by simp
  with run ids show ?thesis
    by (auto simp: sample_source_def)
qed

text \<open>
  The claim C9 as the specification states it fails: a directory whose name is 32
  hexadecimal characters in upper case is no lowercase ID, and it is in the source set.
\<close>

theorem uppercase_id_counterexample:
  "is_dir (Dir 1 [])
   \<and> \<not> is_lower_hex_id ''0123456789ABCDEF0123456789ABCDEF''
   \<and> map_sum id source_ids
       (build_static_site sample_lib (\<lambda>n. 0)
          (Some (Dir 2 [(''0123456789ABCDEF0123456789ABCDEF'', Dir 1 [])])) [])
     = Inr {''0123456789ABCDEF0123456789ABCDEF''}"
  by code_simp

section \<open>What a run leaves in the data directory\<close>

lemma update_keeps:
  "x \<in> set al \<Longrightarrow> (fst x = k \<longrightarrow> map_of al k \<noteq> Some (snd x)) \<Longrightarrow>
   x \<in> set (AList.update k v al)"
  by (induction al) (auto split: if_splits)

lemma update_set_subset: "set (AList.update k v al) \<subseteq> insert (k, v) (set al)"
  by (induction al) auto

lemma rebuild_keeps:
  assumes "rebuild L now dd e = Inr (dd', ws)" and "x \<in> set dd"
    and "\<not> is_dir (snd x) \<or> fst x \<noteq> fst e"
  shows "x \<in> set dd'"
proof -
  from rebuild_result[OF assms(1)] obtain m es' where
    dd': "dd' = AList.update (fst e) (Dir m es') dd" and
    nofile: "\<forall>m c. map_of dd (fst e) \<noteq> Some (File m c)"
    by blast
  have "fst x = fst e \<longrightarrow> map_of dd (fst e) \<noteq> Some (snd x)"
  proof
    assume "fst x = fst e"
    with assms(3) have "\<not> is_dir (snd x)" by simp
    then obtain m0 c0 where "snd x = File m0 c0"
      by (cases "snd x") simp_all
    with nofile show "map_of dd (fst e) \<noteq> Some (snd x)" by simp
  qed
  with assms(2) dd' show ?thesis
    by (simp add: update_keeps)
qed

lemma rebuild_names:
  assumes "rebuild L now dd e = Inr (dd', ws)"
  shows "fst ` set dd \<subseteq> fst ` set dd'"
proof -
  from rebuild_result[OF assms] obtain m es' where
    dd': "dd' = AList.update (fst e) (Dir m es') dd"
    by blast
  show ?thesis
    unfolding dd' AList.dom_update by blast
qed

lemma process_entry_keeps:
  assumes "process_entry L c e st = Inr st'" and "x \<in> set (data_dir st)"
    and "\<not> is_dir (snd x) \<or> fst x \<noteq> fst e"
  shows "x \<in> set (data_dir st')"
proof (cases "is_trajectory e")
  case False
  with assms show ?thesis by (simp add: process_entry_other)
next
  case True
  from assms(1) True show ?thesis
  proof (cases rule: process_entry_cases)
    case skipped
    with assms(2) show ?thesis by simp
  next
    case (rebuilt ws)
    from rebuild_keeps[OF rebuilt(2) assms(2,3)] show ?thesis .
  qed
qed

lemma process_entry_names:
  assumes "process_entry L c e st = Inr st'"
  shows "fst ` set (data_dir st) \<subseteq> fst ` set (data_dir st')"
proof (cases "is_trajectory e")
  case False
  with assms show ?thesis by (simp add: process_entry_other)
next
  case True
  from assms True show ?thesis
  proof (cases rule: process_entry_cases)
    case skipped
    then show ?thesis by simp
  next
    case (rebuilt ws)
    from rebuild_names[OF rebuilt(2)] show ?thesis .
  qed
qed

lemma process_all_keeps:
  "process_all L c es st = Inr st' \<Longrightarrow> x \<in> set (data_dir st) \<Longrightarrow>
   \<not> is_dir (snd x) \<or> fst x \<notin> fst ` set (filter is_trajectory es) \<Longrightarrow>
   x \<in> set (data_dir st')"
proof (induction es arbitrary: st)
  case Nil
  then show ?case by simp
next
  case (Cons e es)
  from Cons.prems(1) obtain st1 where 1: "process_entry L c e st = Inr st1"
    and 2: "process_all L c es st1 = Inr st'"
    by (auto split: sum.splits)
  show ?case
  proof (cases "is_trajectory e")
    case False
    with 1 have "st1 = st" by (simp add: process_entry_other)
    with Cons.IH[OF 2] Cons.prems(2,3) False show ?thesis by simp
  next
    case True
    with Cons.prems(3) have "\<not> is_dir (snd x) \<or> fst x \<noteq> fst e"
      and 3: "\<not> is_dir (snd x) \<or> fst x \<notin> fst ` set (filter is_trajectory es)"
      by auto
    from process_entry_keeps[OF 1 Cons.prems(2) this(1)] Cons.IH[OF 2 _ 3]
    show ?thesis by simp
  qed
qed

lemma process_all_names:
  "process_all L c es st = Inr st' \<Longrightarrow> fst ` set (data_dir st) \<subseteq> fst ` set (data_dir st')"
proof (induction es arbitrary: st)
  case Nil
  then show ?case by simp
next
  case (Cons e es)
  from Cons.prems(1) obtain st1 where 1: "process_entry L c e st = Inr st1"
    and 2: "process_all L c es st1 = Inr st'"
    by (auto split: sum.splits)
  from process_entry_names[OF 1] Cons.IH[OF 2] show ?case by blast
qed

lemma process_all_other_name:
  "process_all L c es st = Inr st' \<Longrightarrow> n \<notin> fst ` set es \<Longrightarrow>
   map_of (data_dir st') n = map_of (data_dir st) n"
proof (induction es arbitrary: st)
  case Nil
  then show ?case by simp
next
  case (Cons e es)
  from Cons.prems(1) obtain st1 where 1: "process_entry L c e st = Inr st1"
    and 2: "process_all L c es st1 = Inr st'"
    by (auto split: sum.splits)
  from Cons.prems(2) have "n \<noteq> fst e" "n \<notin> fst ` set es" by auto
  with process_entry_other_name[OF 1, of n] Cons.IH[OF 2] show ?case by simp
qed

lemma process_all_fresh_untouched:
  "process_all L c es st = Inr st' \<Longrightarrow> distinct (map fst es) \<Longrightarrow> e \<in> set es \<Longrightarrow>
   is_trajectory e \<Longrightarrow> up_to_date (data_dir st) e \<Longrightarrow>
   map_of (data_dir st') (fst e) = map_of (data_dir st) (fst e)"
proof (induction es arbitrary: st)
  case Nil
  then show ?case by simp
next
  case (Cons a es)
  from Cons.prems(1) obtain st1 where 1: "process_entry L c a st = Inr st1"
    and 2: "process_all L c es st1 = Inr st'"
    by (auto split: sum.splits)
  show ?case
  proof (cases "e = a")
    case True
    from True Cons.prems(4,5) have ta: "is_trajectory a" "up_to_date (data_dir st) a"
      by simp_all
    from 1 ta(1) have same: "data_dir st1 = data_dir st"
      by (cases rule: process_entry_cases) (use ta(2) in simp_all)
    from Cons.prems(2) True have "fst e \<notin> fst ` set es" by auto
    from process_all_other_name[OF 2 this] same show ?thesis by simp
  next
    case False
    with Cons.prems(3) have mem: "e \<in> set es" by simp
    from Cons.prems(2) have "fst a \<notin> fst ` set es" by simp
    with mem have ne: "fst e \<noteq> fst a" by (metis imageI)
    from process_entry_other_name[OF 1 ne] have
      same: "map_of (data_dir st1) (fst e) = map_of (data_dir st) (fst e)" .
    with Cons.prems(5) have "up_to_date (data_dir st1) e"
      using up_to_date_cong[of "data_dir st1" e "data_dir st"] by simp
    from Cons.IH[OF 2 _ mem Cons.prems(4) this] Cons.prems(2) same show ?thesis by simp
  qed
qed

lemma map_of_filter_keep:
  "(\<forall>x\<in>set al. fst x = k \<longrightarrow> P x) \<Longrightarrow> map_of (filter P al) k = map_of al k"
  by (induction al) auto

lemma build_static_site_None:
  "build_static_site L c None dd =
     Inr ((initial_state dd)\<lparr>removed_count :=
              length (filter (is_stale_output {}) dd),
            data_dir := AList.update ''trajectories.json''
              (File (c ''trajectories.json'') (Some (JArr [])))
              (filter (\<lambda>x. \<not> is_stale_output {} x) dd)\<rparr>)"
  by (simp add: build_static_site_def finish_build_ok source_ids_initial trajectories_initial
        data_dir_initial)

lemma build_static_site_run:
  assumes "build_static_site L c src dd = Inr st"
  obtains es st1 where
    "src = None \<and> es = [] \<or> (\<exists>m es0. src = Some (Dir m es0) \<and> es = sorted_entries es0)"
    "process_all L c es (initial_state dd) = Inr st1"
    "source_ids st = source_ids st1"
    "data_dir st = AList.update ''trajectories.json''
        (File (c ''trajectories.json'') (Some (JArr (trajectories st1))))
        (filter (\<lambda>x. \<not> is_stale_output (source_ids st1) x) (data_dir st1))"
    "removed_count st = length (filter (is_stale_output (source_ids st1)) (data_dir st1))"
proof (cases src)
  case None
  with assms have "st = (initial_state dd)\<lparr>removed_count :=
              length (filter (is_stale_output {}) dd),
            data_dir := AList.update ''trajectories.json''
              (File (c ''trajectories.json'') (Some (JArr [])))
              (filter (\<lambda>x. \<not> is_stale_output {} x) dd)\<rparr>"
    by (simp add: build_static_site_None)
  with None that[of "[]" "initial_state dd"] show ?thesis
    by (simp add: source_ids_initial trajectories_initial data_dir_initial)
next
  case (Some nd)
  show ?thesis
  proof (cases nd)
    case (File m0 c0)
    with Some assms show ?thesis
      by (simp add: build_static_site_def)
  next
    case (Dir m es0)
    with Some assms obtain st1 where
      "process_all L c (sorted_entries es0) (initial_state dd) = Inr st1"
      "st = st1\<lparr>removed_count :=
                    length (filter (is_stale_output (source_ids st1)) (data_dir st1)),
                  data_dir := AList.update ''trajectories.json''
                    (File (c ''trajectories.json'') (Some (JArr (trajectories st1))))
                    (filter (\<lambda>x. \<not> is_stale_output (source_ids st1) x) (data_dir st1))\<rparr>"
      by (auto simp: build_static_site_Dir split: sum.splits)
    with Some Dir that[of "sorted_entries es0" st1] show ?thesis
      by simp
  qed
qed

lemma distinct_names_sorted_entries:
  "distinct (map fst (sorted_entries es)) = distinct (map fst es)"
  by (simp add: sorted_entries_def distinct_map)

text \<open>
  C5, amended. Line 334 removes an entry of the data directory only when it is a
  directory. On a run that completes: every directory left in the data directory is
  named by an observed source ID, so an output directory without source trajectory is
  gone; and nothing else is deleted: an entry that is not a directory stays (the index
  file is written anew), a name that matches a source ID stays, and the output
  directory of a fresh trajectory is left as it was (the names of the source
  directory being distinct).
\<close>

theorem only_stale_directories_removed:
  assumes "build_static_site L c src dd = Inr st"
  shows "(\<forall>x\<in>set (data_dir st). is_dir (snd x) \<longrightarrow> fst x \<in> source_ids st)
     \<and> (\<forall>x\<in>set dd. is_dir (snd x) \<and> fst x \<notin> source_ids st \<longrightarrow> x \<notin> set (data_dir st))
     \<and> (\<forall>x\<in>set dd. \<not> is_dir (snd x) \<longrightarrow> fst x \<in> fst ` set (data_dir st))
     \<and> (\<forall>x\<in>set dd. \<not> is_dir (snd x) \<and> fst x \<noteq> ''trajectories.json'' \<longrightarrow>
           x \<in> set (data_dir st))
     \<and> (\<forall>x\<in>set dd. fst x \<in> source_ids st \<longrightarrow> fst x \<in> fst ` set (data_dir st))
     \<and> (\<forall>m es. src = Some (Dir m es) \<and> distinct (map fst es) \<longrightarrow>
           (\<forall>e\<in>set es. is_trajectory e \<and> is_fresh dd e \<longrightarrow>
              map_of (data_dir st) (fst e) = map_of dd (fst e)))"
proof -
  from assms obtain es st1 where
    src: "src = None \<and> es = [] \<or> (\<exists>m es0. src = Some (Dir m es0) \<and> es = sorted_entries es0)" and
    p: "process_all L c es (initial_state dd) = Inr st1" and
    ids: "source_ids st = source_ids st1" and
    dd': "data_dir st = AList.update ''trajectories.json''
        (File (c ''trajectories.json'') (Some (JArr (trajectories st1))))
        (filter (\<lambda>x. \<not> is_stale_output (source_ids st1) x) (data_dir st1))"
    by (rule build_static_site_run)
  let ?tj = "''trajectories.json''"
  let ?F = "File (c ?tj) (Some (JArr (trajectories st1)))"
  let ?kept = "filter (\<lambda>x. \<not> is_stale_output (source_ids st1) x) (data_dir st1)"
  from process_all_index[OF p] have ids1: "source_ids st1 = fst ` set (filter is_trajectory es)"
    by (simp add: source_ids_initial)
  have a: "is_dir (snd x) \<longrightarrow> fst x \<in> source_ids st" if "x \<in> set (data_dir st)" for x
  proof -
    from that dd' update_set_subset[of ?tj ?F ?kept] have "x = (?tj, ?F) \<or> x \<in> set ?kept"
      by auto
    then show ?thesis
      by (auto simp: is_stale_output_def ids)
  qed
  have d: "x \<in> set (data_dir st)"
    if "x \<in> set dd" "\<not> is_dir (snd x)" "fst x \<noteq> ?tj" for x
  proof -
    from process_all_keeps[OF p, of x] that have "x \<in> set (data_dir st1)"
      by (simp add: data_dir_initial)
    with that(2) have "x \<in> set ?kept"
      by (simp add: is_stale_output_def)
    with that(3) dd' show ?thesis
      by (simp add: update_keeps)
  qed
  have tj: "?tj \<in> fst ` set (data_dir st)"
    unfolding dd' AList.dom_update by simp
  have b: "fst x \<in> fst ` set (data_dir st)" if "x \<in> set dd" "\<not> is_dir (snd x)" for x
  proof (cases "fst x = ?tj")
    case True
    with tj show ?thesis by simp
  next
    case False
    from d[OF that False] show ?thesis by (rule imageI)
  qed
  have e: "fst x \<in> fst ` set (data_dir st)" if "x \<in> set dd" "fst x \<in> source_ids st" for x
  proof -
    from process_all_names[OF p] that(1) have "fst x \<in> fst ` set (data_dir st1)"
      by (auto simp: data_dir_initial)
    then obtain y where y: "y \<in> set (data_dir st1)" "fst y = fst x"
      by auto
    with that(2) have "y \<in> set ?kept"
      by (simp add: is_stale_output_def ids)
    with y(2) have "fst x \<in> fst ` set ?kept"
      by (metis imageI)
    then show ?thesis
      unfolding dd' AList.dom_update by simp
  qed
  have f: "map_of (data_dir st) (fst e) = map_of dd (fst e)"
    if "src = Some (Dir m es0)" "distinct (map fst es0)" "e \<in> set es0" "is_trajectory e"
      "is_fresh dd e" for m es0 e
  proof -
    from src that(1) have es: "es = sorted_entries es0" by simp
    from that(2) es have dist: "distinct (map fst es)"
      by (simp add: distinct_names_sorted_entries)
    from that(3) es have mem: "e \<in> set es"
      by (simp add: set_sorted_entries)
    from that(5) have "up_to_date (data_dir (initial_state dd)) e"
      by (simp add: up_to_date_fresh data_dir_initial)
    from process_all_fresh_untouched[OF p dist mem that(4) this]
    have 1: "map_of (data_dir st1) (fst e) = map_of dd (fst e)"
      by (simp add: data_dir_initial)
    from mem that(4) ids1 have in_ids: "fst e \<in> source_ids st1"
      by auto
    then have 2: "map_of ?kept (fst e) = map_of (data_dir st1) (fst e)"
      by (intro map_of_filter_keep) (simp add: is_stale_output_def)
    from that(4) trajectories_json_no_id have "fst e \<noteq> ?tj"
      by (auto simp: is_trajectory_def)
    with 1 2 show ?thesis
      unfolding dd' by (simp add: AList.update_conv')
  qed
  from a b d e f show ?thesis
    by blast
qed

theorem only_stale_directories_removed_witness:
  "\<exists>st. build_static_site sample_lib (\<lambda>n. 200) (Some sample_source) sample_data_dir = Inr st
     \<and> map fst (data_dir st)
         = [''notes.txt'', sample_id, ''0123456789ABCDEF0123456789ABCDEF'', ''trajectories.json'']
     \<and> removed_count st = 1
     \<and> (''deadbeefdeadbeefdeadbeefdeadbeef'', Dir 1 [(''events.json'', File 1 None)])
         \<notin> set (data_dir st)
     \<and> (''notes.txt'', File 2 None) \<in> set (data_dir st)
     \<and> map_of (data_dir st) sample_id
         = Some (Dir 150 [(''events.json'', File 100 (Some (JArr [])))])"
proof -
  let ?dead = "(''deadbeefdeadbeefdeadbeefdeadbeef'', Dir 1 [(''events.json'', File 1 None)])"
  let ?nf = "(''notes.txt'', File 2 None)"
  let ?es = "[(sample_id, sample_trajectory),
        (''0123456789ABCDEF0123456789ABCDEF'', Dir 50 []),
        (''notatrajectory'', Dir 60 []),
        (''0123456789'', Dir 70 []),
        (''fedcba9876543210fedcba9876543210'', File 80 None)]"
  have "map_sum id (\<lambda>st. (map fst (data_dir st), removed_count st, source_ids st))
      (build_static_site sample_lib (\<lambda>n. 200) (Some sample_source) sample_data_dir)
    = Inr ([''notes.txt'', sample_id, ''0123456789ABCDEF0123456789ABCDEF'',
            ''trajectories.json''], 1, {sample_id, ''0123456789ABCDEF0123456789ABCDEF''})"
    by code_simp
  then obtain st where
    run: "build_static_site sample_lib (\<lambda>n. 200) (Some sample_source) sample_data_dir = Inr st"
    and names: "map fst (data_dir st)
      = [''notes.txt'', sample_id, ''0123456789ABCDEF0123456789ABCDEF'', ''trajectories.json'']"
    and removed: "removed_count st = 1"
    and ids: "source_ids st = {sample_id, ''0123456789ABCDEF0123456789ABCDEF''}"
    by (auto dest: map_sum_InrD)
  note inst = only_stale_directories_removed[OF run]
  have dead: "?dead \<in> set sample_data_dir" "is_dir (snd ?dead)" "fst ?dead \<notin> source_ids st"
    unfolding ids by code_simp+
  with inst have gone: "?dead \<notin> set (data_dir st)"
    by blast
  have note_file: "?nf \<in> set sample_data_dir" "\<not> is_dir (snd ?nf)"
    "fst ?nf \<noteq> ''trajectories.json''"
    by code_simp+
  with inst have stays: "?nf \<in> set (data_dir st)"
    by blast
  have fresh: "sample_source = Dir 300 ?es" "distinct (map fst ?es)"
    "(sample_id, sample_trajectory) \<in> set ?es" "is_trajectory (sample_id, sample_trajectory)"
    "is_fresh sample_data_dir (sample_id, sample_trajectory)"
    by code_simp+
  with inst have "map_of (data_dir st) (fst (sample_id, sample_trajectory))
      = map_of sample_data_dir (fst (sample_id, sample_trajectory))"
    by blast
  moreover have "map_of sample_data_dir sample_id
      = Some (Dir 150 [(''events.json'', File 100 (Some (JArr [])))])"
    by code_simp
  ultimately have same: "map_of (data_dir st) sample_id
      = Some (Dir 150 [(''events.json'', File 100 (Some (JArr [])))])"
    by simp
  show ?thesis
  proof (intro exI conjI)
    show "build_static_site sample_lib (\<lambda>n. 200) (Some sample_source) sample_data_dir = Inr st"
      by (rule run)
  qed (rule names removed gone stays same)+
qed

text \<open>
  The claim C5 as the specification states it fails: a file of the data directory whose
  name is no source ID is there after the run.
\<close>

theorem stray_file_counterexample:
  "map_sum id (\<lambda>st. (source_ids st, data_dir st))
     (build_static_site sample_lib (\<lambda>n. 0) None [(''notes.txt'', File 1 None)])
   = Inr ({}, [(''notes.txt'', File 1 None),
               (''trajectories.json'', File 0 (Some (JArr [])))])"
  by code_simp

section \<open>Two runs in a row\<close>












section \<open>Event files: the stored list and the count\<close>

lemma events_loop_eq:
  "events_loop fs st =
     (fst st @ List.map_filter (\<lambda>f. load_json (snd f)) fs,
      snd st @ map fst (filter (\<lambda>f. \<not> loads f) fs))"
  by (induction fs arbitrary: st) (auto simp: List.map_filter_simps loads_def split: option.splits)

lemma load_events_eq:
  "load_events fs evs = evs @ List.map_filter (\<lambda>f. load_json (snd f)) fs"
  by (induction fs arbitrary: evs) (auto simp: List.map_filter_simps split: option.splits)

lemma length_map_filter_loads:
  "length (List.map_filter (\<lambda>f. load_json (snd f)) fs) = length (filter loads fs)"
proof -
  have "loads = (\<lambda>f. load_json (snd f) \<noteq> None)"
    by (simp add: fun_eq_iff loads_def)
  then show ?thesis
    by (simp add: List.map_filter_def)
qed





lemma timestamp_keys_length:
  "timestamp_keys evs = Inr ks \<Longrightarrow> length ks = length evs"
  by (induction evs arbitrary: ks) (auto split: sum.splits)

lemma sort_events_perm:
  assumes "sort_events evs = Inr evs'"
  shows "length evs' = length evs \<and> set evs' = set evs"
proof -
  from assms obtain ks where ks: "timestamp_keys evs = Inr ks"
    by (auto simp: sort_events_def split: sum.splits)
  from timestamp_keys_length[OF ks] have len: "length ks = length evs" .
  have "length (map snd (sort_key fst (zip (map g ks) evs))) = length evs
      \<and> set (map snd (sort_key fst (zip (map g ks) evs))) = set evs" for g :: "json \<Rightarrow> 'k::linorder"
  proof -
    have "set (map snd (sort_key fst (zip (map g ks) evs))) = set (map snd (zip (map g ks) evs))"
      by simp
    with len show ?thesis
      by simp
  qed
  from this[of str_of] this[of "\<lambda>k. the (num_of k)"] assms ks show ?thesis
    by (auto simp: sort_events_def split: if_splits)
qed

lemma build_events_eq:
  "build_events tp =
     (List.map_filter (\<lambda>f. load_json (snd f)) (sort_key fst (listed_event_files tp)),
      map fst (filter (\<lambda>f. \<not> loads f) (sort_key fst (listed_event_files tp))))"
  by (cases "child tp ''events''")
     (simp_all add: build_events_def events_loop_eq listed_event_files_def sorted_event_files_def
        List.map_filter_simps)

lemma event_metrics_events:
  assumes "event_metrics L tp = Inr (n, a, t)"
  shows "n = length (listed_event_files tp)
     \<and> (\<exists>events samples. sort_events (fst (build_events tp)) = Inr events
          \<and> compute_total_conversation_time L events = Inr t
          \<and> agent_turn_times L events = Inr samples
          \<and> a = avg_agent_turn_time samples)"
proof (cases "child tp ''events''")
  case None
  with assms show ?thesis
    by (simp add: event_metrics_def listed_event_files_def build_events_def sort_events_def
          compute_total_conversation_time_def agent_turn_times_def avg_agent_turn_time_def)
next
  case (Some ed)
  have loaded: "load_events (sorted_event_files ed) [] = fst (build_events tp)"
    using Some by (simp add: load_events_eq build_events_def events_loop_eq)
  from assms Some show ?thesis
    unfolding event_metrics_def loaded[symmetric]
    by (auto simp: Let_def listed_event_files_def sorted_event_files_def split: sum.splits)
qed



lemma detail_base_state_event_count:
  "detail_base_state tp t0 = Inr t1 \<Longrightarrow> map_of t1 ''eventCount'' = map_of t0 ''eventCount''"
  by (auto simp: detail_base_state_def Let_def AList.update_conv'
      split: option.splits sum.splits json.splits)

lemma metadata_event_count:
  "compute_trajectory_metadata L tid tp = Inr md \<Longrightarrow>
   \<exists>n a t. event_metrics L tp = Inr (n, a, t)
     \<and> py_get md ''eventCount'' JNull = Inr (JNum (of_nat n))"
  by (auto simp: compute_trajectory_metadata_def dict_get_def split: sum.splits prod.splits)

text \<open>
  C8. The \<^verbatim>\<open>eventCount\<close> of the metadata and of the detail record is the number
  of event files that the listing of the events directory shows (0 without such a
  directory), whether they load or not. The list that the conversation time and the
  turn times are computed from holds the events of the files that load, and only
  these; it is shorter than the count as soon as one listed file does not load.
\<close>

theorem event_count_is_listing_size:
  "(compute_trajectory_metadata L tid tp = Inr md \<longrightarrow>
      py_get md ''eventCount'' JNull = Inr (JNum (of_nat (length (listed_event_files tp)))))
   \<and> (build_trajectory_detail L tid tp = Inr d \<longrightarrow>
      py_get d ''eventCount'' JNull = Inr (JNum (of_nat (length (listed_event_files tp)))))
   \<and> (event_metrics L tp = Inr (n, a, t) \<longrightarrow>
        n = length (listed_event_files tp)
        \<and> (\<exists>events samples.
             length events = length (filter loads (listed_event_files tp))
             \<and> set events
                 = set (List.map_filter (\<lambda>f. load_json (snd f)) (listed_event_files tp))
             \<and> compute_total_conversation_time L events = Inr t
             \<and> agent_turn_times L events = Inr samples
             \<and> a = avg_agent_turn_time samples))
   \<and> length (filter loads (listed_event_files tp)) \<le> length (listed_event_files tp)
   \<and> ((\<exists>f\<in>set (listed_event_files tp). \<not> loads f) \<longrightarrow>
        length (filter loads (listed_event_files tp)) < length (listed_event_files tp))"
proof (intro conjI impI)
  assume "compute_trajectory_metadata L tid tp = Inr md"
  from metadata_event_count[OF this] obtain n a t where
    em: "event_metrics L tp = Inr (n, a, t)" and
    ec: "py_get md ''eventCount'' JNull = Inr (JNum (of_nat n))"
    by blast
  from event_metrics_events[OF em] have "n = length (listed_event_files tp)"
    by simp
  with ec show "py_get md ''eventCount'' JNull
      = Inr (JNum (of_nat (length (listed_event_files tp))))"
    by simp
next
  assume "build_trajectory_detail L tid tp = Inr d"
  then obtain t1 where
    t1: "detail_base_state tp
             [(''id'', JStr tid),
              (''created'', JStr (ctime L (st_mtime tp))),
              (''eventCount'', JNum 0)] = Inr t1" and
    d: "d = (case child tp ''events'' of
             None \<Rightarrow> JObj t1
           | Some events_dir \<Rightarrow>
               JObj (AList.update ''eventCount''
                            (JNum (of_nat (length (glob_events events_dir)))) t1))"
    by (auto simp: build_trajectory_detail_def split: sum.splits option.splits)
  from detail_base_state_event_count[OF t1] have "map_of t1 ''eventCount'' = Some (JNum 0)"
    by simp
  with d show "py_get d ''eventCount'' JNull
      = Inr (JNum (of_nat (length (listed_event_files tp))))"
    by (cases "child tp ''events''")
       (simp_all add: dict_get_def listed_event_files_def AList.update_conv')
next
  assume em: "event_metrics L tp = Inr (n, a, t)"
  from event_metrics_events[OF em] show "n = length (listed_event_files tp)"
    by simp
  from event_metrics_events[OF em] obtain events samples where
    s: "sort_events (fst (build_events tp)) = Inr events" and
    rest: "compute_total_conversation_time L events = Inr t"
      "agent_turn_times L events = Inr samples" "a = avg_agent_turn_time samples"
    by blast
  from sort_events_perm[OF s] have
    "length events = length (filter loads (sort_key fst (listed_event_files tp)))"
    "set events = set (List.map_filter (\<lambda>f. load_json (snd f))
        (sort_key fst (listed_event_files tp)))"
    by (simp_all add: build_events_eq length_map_filter_loads)
  then have "length events = length (filter loads (listed_event_files tp))"
    "set events = set (List.map_filter (\<lambda>f. load_json (snd f)) (listed_event_files tp))"
    by (simp_all add: filter_sort List.map_filter_def)
  with rest show "\<exists>events samples.
             length events = length (filter loads (listed_event_files tp))
             \<and> set events
                 = set (List.map_filter (\<lambda>f. load_json (snd f)) (listed_event_files tp))
             \<and> compute_total_conversation_time L events = Inr t
             \<and> agent_turn_times L events = Inr samples
             \<and> a = avg_agent_turn_time samples"
    by blast
next
  show "length (filter loads (listed_event_files tp)) \<le> length (listed_event_files tp)"
    by (rule length_filter_le)
next
  assume "\<exists>f\<in>set (listed_event_files tp). \<not> loads f"
  then show "length (filter loads (listed_event_files tp)) < length (listed_event_files tp)"
    by (auto intro: length_filter_less)
qed

theorem event_count_is_listing_size_witness:
  "compute_trajectory_metadata sample_lib sample_id sample_trajectory = Inr sample_metadata
   \<and> py_get sample_metadata ''eventCount'' JNull = Inr (JNum 3)
   \<and> length (listed_event_files sample_trajectory) = 3
   \<and> length (filter loads (listed_event_files sample_trajectory)) = 2
   \<and> (\<exists>d. build_trajectory_detail sample_lib sample_id sample_trajectory = Inr d
         \<and> py_get d ''eventCount'' JNull = Inr (JNum 3))
   \<and> event_metrics sample_lib sample_trajectory = Inr (3, 0, 10)"
proof -
  have md: "compute_trajectory_metadata sample_lib sample_id sample_trajectory = Inr sample_metadata"
    by (rule sample_metadata_eval)
  have listed: "length (listed_event_files sample_trajectory) = 3"
    by code_simp
  have em: "event_metrics sample_lib sample_trajectory = Inr (3, 0, 10)"
    by code_simp
  have bad: "\<exists>f\<in>set (listed_event_files sample_trajectory). \<not> loads f"
    by code_simp
  have two: "length (filter loads (listed_event_files sample_trajectory)) = 2"
    by code_simp
  from metadata_detail[OF md] obtain d where
    d: "build_trajectory_detail sample_lib sample_id sample_trajectory = Inr d"
    by blast
  note inst = event_count_is_listing_size[where L = sample_lib and tid = sample_id
      and tp = sample_trajectory and md = sample_metadata and d = d and n = 3 and a = 0 and t = 10]
  from inst md listed have 1: "py_get sample_metadata ''eventCount'' JNull = Inr (JNum 3)"
    by simp
  from inst d listed have 2: "py_get d ''eventCount'' JNull = Inr (JNum 3)"
    by simp
  from inst bad have "length (filter loads (listed_event_files sample_trajectory))
      < length (listed_event_files sample_trajectory)"
    by blast
  from d 2 have "\<exists>d. build_trajectory_detail sample_lib sample_id sample_trajectory = Inr d
         \<and> py_get d ''eventCount'' JNull = Inr (JNum 3)"
    by blast
  with md 1 listed two em show ?thesis
    by (intro conjI)
qed

section \<open>Events of the data model are always measured\<close>



section \<open>The base state\<close>







end
